theory Spec2Isabelle
  imports Main "HOL-Library.Sublist"
begin

section \<open>Python values used by the search adapter\<close>

text \<open>
  A Python \<open>str\<close> is a sequence of Unicode code points, and slicing, \<open>len\<close> and \<open>in\<close>
  count code points. It is modelled as a list of code points, so that \<open>s[:8]\<close> is
  \<open>take 8 s\<close> also for text outside ASCII. Literals of the source are written with
  \<open>ascii\<close>; the few characters beyond ASCII are given by their code point.
\<close>

type_synonym ustring = "nat list"

definition ascii :: "string \<Rightarrow> ustring" where
  "ascii s = map of_char s"

definition nl :: ustring where
  "nl = [10]"

definition apos :: ustring where
  "apos = [39]"

definition bullet :: ustring where
  "bullet = [0x2022]"

text \<open>\<open>str(n)\<close> for a Python integer: its decimal digits, with a sign when negative.\<close>

fun str_nat :: "nat \<Rightarrow> ustring" where
  "str_nat n = (if n < 10 then [48 + n] else str_nat (n div 10) @ [48 + n mod 10])"

declare str_nat.simps [simp del]

definition str_int :: "int \<Rightarrow> ustring" where
  "str_int i = (if i < 0 then 45 # str_nat (nat (- i)) else str_nat (nat i))"

text \<open>\<open>sep.join(parts)\<close>.\<close>

fun join :: "ustring \<Rightarrow> ustring list \<Rightarrow> ustring" where
  "join sep [] = []"
| "join sep [x] = x"
| "join sep (x # y # ys) = x @ sep @ join sep (y # ys)"

text \<open>
  What \<open>response.json()\<close> returns: \<open>None\<close>, \<open>bool\<close>, \<open>int\<close>, \<open>float\<close>, \<open>str\<close>,
  \<open>list\<close> or \<open>dict\<close>. Floats are kept abstract (type \<open>'f\<close>). A \<open>dict\<close> is an association
  list with distinct keys, read with \<open>map_of\<close>.
\<close>

datatype 'f jvalue =
    JNull
  | JBool bool
  | JInt int
  | JFloat 'f
  | JStr ustring
  | JList "'f jvalue list"
  | JDict "(ustring \<times> 'f jvalue) list"

text \<open>
  Exceptions. \<open>KeyError k\<close> is a failed \<open>d[k]\<close>; \<open>Error m\<close> is any other exception derived
  from \<open>Exception\<close>, as the HTTP client, the JSON decoder and the interpreter's operations
  on values raise them, \<open>m\<close> being its \<open>str(e)\<close>. \<open>CancelledError\<close> is
  \<open>asyncio.CancelledError\<close>, raised at an \<open>await\<close> when the task running the operation is
  cancelled; it derives from \<open>BaseException\<close> only, not from \<open>Exception\<close>.
\<close>

datatype exn = KeyError ustring | Error ustring | CancelledError

text \<open>\<open>isinstance(e, Exception)\<close>: what \<open>except Exception\<close> catches.\<close>

fun is_Exception :: "exn \<Rightarrow> bool" where
  "is_Exception (KeyError k) = True"
| "is_Exception (Error m) = True"
| "is_Exception CancelledError = False"

text \<open>\<open>str(e)\<close>; for a \<open>KeyError\<close> it is the \<open>repr\<close> of the key, here always one of the
  identifier-like literals of the source, so the key between apostrophes.\<close>

fun str_exn :: "exn \<Rightarrow> ustring" where
  "str_exn (KeyError k) = apos @ k @ apos"
| "str_exn (Error m) = m"
| "str_exn CancelledError = []"

text \<open>Sequencing of a computation that may raise.\<close>

definition and_then :: "exn + 'a \<Rightarrow> ('a \<Rightarrow> exn + 'b) \<Rightarrow> exn + 'b" where
  "and_then r f = (case r of Inl e \<Rightarrow> Inl e | Inr v \<Rightarrow> f v)"

text \<open>
  The interpreter behaviour that the source relies on and that is not transcribed here:
  the truth value and the \<open>.3f\<close> rendering of a float, the \<open>.3f\<close> rendering of an
  integer (\<open>Inl m\<close> when it raises \<open>OverflowError\<close>, on integers too large for a float,
  \<open>m\<close> being the message), \<open>str\<close> of a value that is not a string, and the message of
  the exception an operation raises on a value of a type it does not support (a
  \<open>TypeError\<close>, \<open>AttributeError\<close> or \<open>ValueError\<close>, all derived from \<open>Exception\<close>; class and
  message depend on the interpreter's version).
\<close>

datatype builtin = Get_attr | Subscript | Slice | Contains | Iter | Len | Format_3f

record 'f runtime =
  float_bool :: "'f \<Rightarrow> bool"
  float_3f :: "'f \<Rightarrow> ustring"
  int_3f :: "int \<Rightarrow> ustring + ustring"
  str_value :: "'f jvalue \<Rightarrow> ustring"
  builtin_error :: "builtin \<Rightarrow> 'f jvalue \<Rightarrow> ustring"

text \<open>\<open>data.get(key, default)\<close>: only a \<open>dict\<close> has the method.\<close>

fun dict_get :: "'f runtime \<Rightarrow> 'f jvalue \<Rightarrow> ustring \<Rightarrow> 'f jvalue \<Rightarrow> exn + 'f jvalue" where
  "dict_get rt (JDict d) key dflt = Inr (case map_of d key of None \<Rightarrow> dflt | Some v \<Rightarrow> v)"
| "dict_get rt v key dflt = Inl (Error (builtin_error rt Get_attr v))"

text \<open>The truth value tested by \<open>not v\<close>.\<close>

fun truthy :: "'f runtime \<Rightarrow> 'f jvalue \<Rightarrow> bool" where
  "truthy rt JNull = False"
| "truthy rt (JBool b) = b"
| "truthy rt (JInt n) = (n \<noteq> 0)"
| "truthy rt (JFloat x) = float_bool rt x"
| "truthy rt (JStr s) = (s \<noteq> [])"
| "truthy rt (JList xs) = (xs \<noteq> [])"
| "truthy rt (JDict d) = (d \<noteq> [])"

text \<open>\<open>v[:n]\<close>: strings and lists are sliced, anything else raises.\<close>

fun slice_to :: "'f runtime \<Rightarrow> nat \<Rightarrow> 'f jvalue \<Rightarrow> exn + 'f jvalue" where
  "slice_to rt n (JStr s) = Inr (JStr (take n s))"
| "slice_to rt n (JList xs) = Inr (JList (take n xs))"
| "slice_to rt n v = Inl (Error (builtin_error rt Slice v))"

text \<open>The items a \<open>for\<close> loop draws from a value.\<close>

fun iterate :: "'f runtime \<Rightarrow> 'f jvalue \<Rightarrow> exn + 'f jvalue list" where
  "iterate rt (JList xs) = Inr xs"
| "iterate rt (JStr s) = Inr (map (\<lambda>c. JStr [c]) s)"
| "iterate rt (JDict d) = Inr (map (\<lambda>kv. JStr (fst kv)) d)"
| "iterate rt v = Inl (Error (builtin_error rt Iter v))"

text \<open>\<open>v[key]\<close> for a string key.\<close>

fun subscript :: "'f runtime \<Rightarrow> 'f jvalue \<Rightarrow> ustring \<Rightarrow> exn + 'f jvalue" where
  "subscript rt (JDict d) key = (case map_of d key of None \<Rightarrow> Inl (KeyError key) | Some v \<Rightarrow> Inr v)"
| "subscript rt v key = Inl (Error (builtin_error rt Subscript v))"

text \<open>\<open>'T' in v\<close>: substring test on a string, membership in a list, key test on a dict.\<close>

fun contains_T :: "'f runtime \<Rightarrow> 'f jvalue \<Rightarrow> exn + bool" where
  "contains_T rt (JStr s) = Inr (84 \<in> set s)"
| "contains_T rt (JList xs) = Inr (JStr [84] \<in> set xs)"
| "contains_T rt (JDict d) = Inr ([84] \<in> set (map fst d))"
| "contains_T rt v = Inl (Error (builtin_error rt Contains v))"

text \<open>\<open>len(v)\<close>.\<close>

fun py_len :: "'f runtime \<Rightarrow> 'f jvalue \<Rightarrow> exn + int" where
  "py_len rt (JStr s) = Inr (int (length s))"
| "py_len rt (JList xs) = Inr (int (length xs))"
| "py_len rt (JDict d) = Inr (int (length d))"
| "py_len rt v = Inl (Error (builtin_error rt Len v))"

text \<open>A replacement field \<open>{v}\<close> of an f-string: \<open>str(v)\<close>.\<close>

fun py_str :: "'f runtime \<Rightarrow> 'f jvalue \<Rightarrow> ustring" where
  "py_str rt (JStr s) = s"
| "py_str rt v = str_value rt v"

text \<open>A replacement field \<open>{v:.3f}\<close>: numbers (and booleans, which are integers) are
  rendered, anything else raises.\<close>

fun format_3f :: "'f runtime \<Rightarrow> 'f jvalue \<Rightarrow> exn + ustring" where
  "format_3f rt (JFloat x) = Inr (float_3f rt x)"
| "format_3f rt (JInt n) = map_sum Error (\<lambda>s. s) (int_3f rt n)"
| "format_3f rt (JBool b) = map_sum Error (\<lambda>s. s) (int_3f rt (if b then 1 else 0))"
| "format_3f rt v = Inl (Error (builtin_error rt Format_3f v))"

section \<open>The session and the remote service\<close>

record ConfigSchema =
  user_id :: ustring

record Context =
  session_config :: ConfigSchema

text \<open>
  An HTTP response as the source reads it: \<open>status_code\<close>, \<open>text\<close>, and the outcome of
  calling \<open>json()\<close> on it, which is a decoded value or the decoder's exception.
\<close>

record 'f response =
  status_code :: int
  "text" :: ustring
  json :: "exn + 'f jvalue"

text \<open>
  The remote service is a parameter: \<open>post url body\<close> is the outcome of
  \<open>await client.post(url, json=body)\<close>, a response or the exception raised there: that of
  the HTTP client (connection failure, timeout after the 30 seconds the client is created
  with; opening and closing the client belong to this outcome too), or \<open>CancelledError\<close>
  when the task is cancelled while it waits. What the operation does to the
  outside is recorded as a list of events: each request sent, and each call of \<open>json()\<close>.
\<close>

type_synonym 'f http_post = "ustring \<Rightarrow> 'f jvalue \<Rightarrow> exn + 'f response"

datatype 'f event = Post ustring "'f jvalue" | Json

definition api_url :: ustring where
  "api_url = ascii ''https://jzflint--video-processing-api-fastapi-app.modal.run/retrieve-clips-with-descriptions''"

section \<open>\<open>query_videos\<close>\<close>

text \<open>Line 66: \<open>clip['expires_at'][:19] if 'T' in clip['expires_at'] else clip['expires_at']\<close>.\<close>

definition expires_str :: "'f runtime \<Rightarrow> 'f jvalue \<Rightarrow> exn + 'f jvalue" where
  "expires_str rt clip =
     and_then (subscript rt clip (ascii ''expires_at'')) (\<lambda>e.
     and_then (contains_T rt e) (\<lambda>has_T.
       if has_T
       then and_then (subscript rt clip (ascii ''expires_at'')) (slice_to rt 19)
       else subscript rt clip (ascii ''expires_at'')))"

text \<open>Lines 62 to 75: the body of the loop, which renders clip number \<open>i\<close>. The fields are
  read in the order in which the source evaluates them.\<close>

definition format_clip :: "'f runtime \<Rightarrow> int \<Rightarrow> 'f jvalue \<Rightarrow> exn + ustring" where
  "format_clip rt i clip =
     and_then (subscript rt clip (ascii ''chunk_id'')) (\<lambda>chunk_id.
     and_then (subscript rt clip (ascii ''description'')) (\<lambda>description.
     and_then (expires_str rt clip) (\<lambda>expires.
     and_then (subscript rt clip (ascii ''score'')) (\<lambda>score.
     and_then (format_3f rt score) (\<lambda>score_3f.
     and_then (subscript rt clip (ascii ''url'')) (\<lambda>url.
     and_then (subscript rt clip (ascii ''video_id'')) (\<lambda>video_id.
     and_then (slice_to rt 8 video_id) (\<lambda>video_id_8.
     and_then (slice_to rt 8 chunk_id) (\<lambda>chunk_id_8.
       Inr (str_int i @ ascii ''. **Relevance Score: '' @ score_3f @ ascii ''**'' @ nl
          @ ascii ''   '' @ [0x1F4C4] @ ascii '' **AI Description:** '' @ py_str rt description @ nl
          @ ascii ''   '' @ [0x1F4F9] @ ascii '' **Video URL:** '' @ py_str rt url @ nl
          @ ascii ''   '' @ [0x23F0] @ ascii '' **URL Expires:** '' @ py_str rt expires @ nl
          @ ascii ''   '' @ [0x1F3AC] @ ascii '' **Video ID:** '' @ py_str rt video_id_8 @ ascii ''...'' @ nl
          @ ascii ''   '' @ [0x1F4DD] @ ascii '' **Chunk ID:** '' @ py_str rt chunk_id_8 @ ascii ''...''))))))))))"

text \<open>Lines 60 to 75: \<open>for i, clip in enumerate(..., 1): results.append(...)\<close>. The loop
  stops at the first clip whose rendering raises.\<close>

fun format_results :: "'f runtime \<Rightarrow> int \<Rightarrow> 'f jvalue list \<Rightarrow> ustring list \<Rightarrow> exn + ustring list" where
  "format_results rt i [] results = Inr results"
| "format_results rt i (clip # rest) results =
     and_then (format_clip rt i clip) (\<lambda>block. format_results rt (i + 1) rest (results @ [block]))"

text \<open>Line 57: the text returned when there are no clips.\<close>

definition no_clips_causes :: ustring where
  "no_clips_causes =
     nl @ nl @ ascii ''This could mean:'' @ nl
     @ bullet @ ascii '' No videos have been uploaded for this user'' @ nl
     @ bullet @ ascii '' The query doesn't match any video content'' @ nl
     @ bullet @ ascii '' Try using different search terms or keywords''"

text \<open>Lines 77 to 80: the header.\<close>

definition summary :: "int \<Rightarrow> ustring \<Rightarrow> ustring" where
  "summary n query =
     [0x1F3AF] @ ascii '' **Found '' @ str_int n @ ascii '' relevant video clips for query:** ''
       @ apos @ query @ apos @ nl @ nl
     @ [0x1F4CA] @ ascii '' **Results sorted by relevance score (higher = more relevant)**'' @ nl @ nl"

text \<open>Lines 83 to 88: the closing tips.\<close>

definition usage_tips :: ustring where
  "usage_tips =
     [0x1F4A1] @ ascii '' **Usage Tips:**'' @ nl
     @ bullet @ ascii '' Read the AI-generated descriptions to understand video content before clicking'' @ nl
     @ bullet @ ascii '' Click video URLs to view the actual clips'' @ nl
     @ bullet @ ascii '' URLs expire after the specified time - use them promptly'' @ nl
     @ bullet @ ascii '' Each video segment represents approximately 30 seconds of content'' @ nl
     @ bullet @ ascii '' Descriptions include both visual content analysis and audio transcription''"

text \<open>Line 92: the checklist that ends the text of the exception handler.\<close>

definition checklist :: ustring where
  "checklist =
     nl @ nl @ ascii ''Please ensure:'' @ nl
     @ bullet @ ascii '' Your user_id is configured correctly'' @ nl
     @ bullet @ ascii '' The video processing API is accessible'' @ nl
     @ bullet @ ascii '' You have internet connectivity''"

text \<open>Lines 53 to 89: what is done with the decoded body of a 200 response.\<close>

definition format_response :: "'f runtime \<Rightarrow> ustring \<Rightarrow> 'f jvalue \<Rightarrow> exn + ustring" where
  "format_response rt query data =
     and_then (dict_get rt data (ascii ''clips'') (JList [])) (\<lambda>clips.
       if \<not> truthy rt clips
       then Inr (ascii ''No video clips found for query: '' @ apos @ query @ apos @ no_clips_causes)
       else
         and_then (slice_to rt 15 clips) (\<lambda>top.
         and_then (iterate rt top) (\<lambda>items.
         and_then (format_results rt 1 items []) (\<lambda>results.
         and_then (py_len rt clips) (\<lambda>n.
           Inr (summary n query @ join (nl @ nl) results @ nl @ nl @ usage_tips))))))"

text \<open>Lines 43 to 47: the \<open>json=\<close> argument of the request.\<close>

definition request_body :: "ustring \<Rightarrow> ustring \<Rightarrow> int \<Rightarrow> 'f jvalue" where
  "request_body uid query max_results =
     JDict [(ascii ''user_id'', JStr uid),
            (ascii ''query'', JStr query),
            (ascii ''top_k'', JInt (min max_results 15))]"

text \<open>Lines 34 to 89: the body of the \<open>try\<close>. It yields the events and either the string
  returned or the exception raised.\<close>

definition query_videos_try ::
  "'f runtime \<Rightarrow> 'f http_post \<Rightarrow> Context \<Rightarrow> ustring \<Rightarrow> int \<Rightarrow> 'f event list \<times> (exn + ustring)" where
  "query_videos_try rt post ctx query max_results =
     (let config = session_config ctx in
      if user_id config = []
      then ([], Inr (ascii ''Error: User ID is required in configuration''))
      else
        let body = request_body (user_id config) query max_results
        in case post api_url body of
             Inl e \<Rightarrow> ([Post api_url body], Inl e)
           | Inr response \<Rightarrow>
               if status_code response \<noteq> 200
               then ([Post api_url body],
                     Inr (ascii ''Error querying videos: '' @ str_int (status_code response)
                          @ ascii '' - '' @ text response))
               else ([Post api_url body, Json],
                     and_then (json response) (format_response rt query)))"

text \<open>Lines 33 to 92: the operation, with its \<open>except Exception\<close> handler. It yields the
  events and either the string returned (\<open>Inr\<close>) or the exception that the handler does not
  catch and that reaches the caller (\<open>Inl\<close>).\<close>

definition query_videos ::
  "'f runtime \<Rightarrow> 'f http_post \<Rightarrow> Context \<Rightarrow> ustring \<Rightarrow> int \<Rightarrow> 'f event list \<times> (exn + ustring)" where
  "query_videos rt post ctx query max_results =
     (case query_videos_try rt post ctx query max_results of
        (events, Inr result) \<Rightarrow> (events, Inr result)
      | (events, Inl e) \<Rightarrow>
          if is_Exception e
          then (events, Inr (ascii ''Error searching videos: '' @ str_exn e @ checklist))
          else (events, Inl e))"

text \<open>The requests among the events, and the \<open>top_k\<close> of a request body.\<close>

fun requests :: "'f event list \<Rightarrow> 'f jvalue list" where
  "requests [] = []"
| "requests (Post url body # es) = body # requests es"
| "requests (Json # es) = requests es"

fun top_k :: "'f jvalue \<Rightarrow> 'f jvalue option" where
  "top_k (JDict d) = map_of d (ascii ''top_k'')"
| "top_k v = None"

section \<open>Vocabulary of the properties\<close>

text \<open>
  A clip record of the shape the operation expects from the remote service: a \<open>dict\<close>
  with the string fields \<open>chunk_id\<close>, \<open>video_id\<close>, \<open>description\<close>, \<open>url\<close>, \<open>expires_at\<close>
  and the float field \<open>score\<close> (other fields may be present).
\<close>

definition has_str :: "(ustring \<times> 'f jvalue) list \<Rightarrow> ustring \<Rightarrow> bool" where
  "has_str d key = (case map_of d key of Some (JStr s) \<Rightarrow> True | _ \<Rightarrow> False)"

definition has_float :: "(ustring \<times> 'f jvalue) list \<Rightarrow> ustring \<Rightarrow> bool" where
  "has_float d key = (case map_of d key of Some (JFloat x) \<Rightarrow> True | _ \<Rightarrow> False)"

fun ClipResult :: "'f jvalue \<Rightarrow> bool" where
  "ClipResult (JDict d) =
     (has_str d (ascii ''chunk_id'') \<and> has_str d (ascii ''video_id'')
      \<and> has_str d (ascii ''description'') \<and> has_str d (ascii ''url'')
      \<and> has_str d (ascii ''expires_at'') \<and> has_float d (ascii ''score''))"
| "ClipResult v = False"

text \<open>The same record with its fields named.\<close>

fun clip_fields ::
  "'f jvalue \<Rightarrow> ustring \<Rightarrow> ustring \<Rightarrow> ustring \<Rightarrow> ustring \<Rightarrow> ustring \<Rightarrow> 'f \<Rightarrow> bool" where
  "clip_fields (JDict d) chunk video description url expires x =
     (map_of d (ascii ''chunk_id'') = Some (JStr chunk)
      \<and> map_of d (ascii ''video_id'') = Some (JStr video)
      \<and> map_of d (ascii ''description'') = Some (JStr description)
      \<and> map_of d (ascii ''url'') = Some (JStr url)
      \<and> map_of d (ascii ''expires_at'') = Some (JStr expires)
      \<and> map_of d (ascii ''score'') = Some (JFloat x))"
| "clip_fields v chunk video description url expires x = False"

text \<open>The ranks of the at most 15 result blocks, as they are printed.\<close>

definition ranks :: "ustring list" where
  "ranks = [ascii ''1'', ascii ''2'', ascii ''3'', ascii ''4'', ascii ''5'', ascii ''6'', ascii ''7'',
            ascii ''8'', ascii ''9'', ascii ''10'', ascii ''11'', ascii ''12'', ascii ''13'',
            ascii ''14'', ascii ''15'']"

text \<open>The text that follows the rank at the head of every result block.\<close>

definition rank_marker :: ustring where
  "rank_marker = ascii ''. **Relevance Score: ''"

section \<open>Example inputs\<close>

text \<open>An interpreter whose floats are counted in thousandths.\<close>

definition demo_runtime :: "nat runtime" where
  "demo_runtime =
     \<lparr>float_bool = (\<lambda>x. x \<noteq> 0),
      float_3f = (\<lambda>x. str_nat (x div 1000) @ [46, 48 + x div 100 mod 10, 48 + x div 10 mod 10, 48 + x mod 10]),
      int_3f = (\<lambda>n. Inr (str_int n @ ascii ''.000'')),
      str_value = (\<lambda>v. ascii ''<value>''),
      builtin_error = (\<lambda>b v. ascii ''unsupported operand'')\<rparr>"

definition demo_context :: "ustring \<Rightarrow> Context" where
  "demo_context uid = \<lparr>session_config = \<lparr>user_id = uid\<rparr>\<rparr>"

text \<open>A remote service with the same outcome for every request, a 503 response, and a
  200 response with a given decoded body (its raw text is not read by the operation).\<close>

definition answers :: "exn + nat response \<Rightarrow> nat http_post" where
  "answers outcome url body = outcome"

definition unavailable :: "nat response" where
  "unavailable =
     \<lparr>status_code = 503, text = ascii ''service unavailable'',
      json = Inl (Error (ascii ''Expecting value''))\<rparr>"

definition ok_response :: "nat jvalue \<Rightarrow> nat response" where
  "ok_response data = \<lparr>status_code = 200, text = [], json = Inr data\<rparr>"

definition demo_clip :: "ustring \<Rightarrow> ustring \<Rightarrow> ustring \<Rightarrow> nat jvalue" where
  "demo_clip video chunk expires =
     JDict [(ascii ''chunk_id'', JStr chunk),
            (ascii ''video_id'', JStr video),
            (ascii ''description'', JStr (ascii ''A red car drives past'')),
            (ascii ''url'', JStr (ascii ''https://cdn.example/c.mp4'')),
            (ascii ''expires_at'', JStr expires),
            (ascii ''score'', JFloat 842)]"

section \<open>Properties\<close>

subsection \<open>The request\<close>

lemma requests_query_videos:
  "user_id (session_config ctx) \<noteq> [] \<Longrightarrow>
   requests (fst (query_videos rt post ctx query max_results))
     = [request_body (user_id (session_config ctx)) query max_results]"
  by (simp add: query_videos_def query_videos_try_def Let_def split: sum.splits)

lemma top_k_request_body:
  "top_k (request_body uid query max_results) = Some (JInt (min max_results 15))"
  by (simp add: request_body_def ascii_def)

subsection \<open>The example inputs\<close>

lemma demo_user: "user_id (session_config (demo_context (ascii ''u1''))) \<noteq> []"
  by (simp add: demo_context_def ascii_def)

lemma demo_post:
  "answers outcome api_url (request_body uid query max_results) = outcome"
  by (simp add: answers_def)

lemma demo_ok [simp]:
  "status_code (ok_response data) = 200" "json (ok_response data) = Inr data"
  by (simp_all add: ok_response_def)

lemma demo_clip_fields:
  "map_of [(ascii ''chunk_id'', JStr chunk), (ascii ''video_id'', JStr video),
           (ascii ''description'', JStr description), (ascii ''url'', JStr url),
           (ascii ''expires_at'', JStr expires), (ascii ''score'', JFloat x)] (ascii ''chunk_id'') = Some (JStr chunk)"
  "map_of [(ascii ''chunk_id'', JStr chunk), (ascii ''video_id'', JStr video),
           (ascii ''description'', JStr description), (ascii ''url'', JStr url),
           (ascii ''expires_at'', JStr expires), (ascii ''score'', JFloat x)] (ascii ''video_id'') = Some (JStr video)"
  "map_of [(ascii ''chunk_id'', JStr chunk), (ascii ''video_id'', JStr video),
           (ascii ''description'', JStr description), (ascii ''url'', JStr url),
           (ascii ''expires_at'', JStr expires), (ascii ''score'', JFloat x)] (ascii ''description'') = Some (JStr description)"
  "map_of [(ascii ''chunk_id'', JStr chunk), (ascii ''video_id'', JStr video),
           (ascii ''description'', JStr description), (ascii ''url'', JStr url),
           (ascii ''expires_at'', JStr expires), (ascii ''score'', JFloat x)] (ascii ''url'') = Some (JStr url)"
  "map_of [(ascii ''chunk_id'', JStr chunk), (ascii ''video_id'', JStr video),
           (ascii ''description'', JStr description), (ascii ''url'', JStr url),
           (ascii ''expires_at'', JStr expires), (ascii ''score'', JFloat x)] (ascii ''expires_at'') = Some (JStr expires)"
  "map_of [(ascii ''chunk_id'', JStr chunk), (ascii ''video_id'', JStr video),
           (ascii ''description'', JStr description), (ascii ''url'', JStr url),
           (ascii ''expires_at'', JStr expires), (ascii ''score'', JFloat x)] (ascii ''score'') = Some (JFloat x)"
  by (simp_all add: ascii_def)

lemma ClipResult_demo_clip [simp]: "ClipResult (demo_clip video chunk expires)"
  by (simp add: demo_clip_def has_str_def has_float_def ascii_def)

lemma clip_fields_demo_clip:
  "clip_fields (demo_clip video chunk expires) ch v de u e x \<longleftrightarrow>
     ch = chunk \<and> v = video \<and> de = ascii ''A red car drives past''
     \<and> u = ascii ''https://cdn.example/c.mp4'' \<and> e = expires \<and> x = 842"
  by (auto simp: demo_clip_def ascii_def)

lemma demo_score: "float_3f demo_runtime 842 = ascii ''0.842''"
proof -
  have "str_nat 0 = [48]" by code_simp
  then show ?thesis by (simp add: demo_runtime_def ascii_def)
qed

subsection \<open>Where exceptions come from\<close>
















subsection \<open>Rendering of clip records\<close>

lemma format_clip_fields:
  assumes "map_of d (ascii ''chunk_id'') = Some (JStr chunk)"
    and "map_of d (ascii ''video_id'') = Some (JStr video)"
    and "map_of d (ascii ''description'') = Some (JStr description)"
    and "map_of d (ascii ''url'') = Some (JStr url)"
    and "map_of d (ascii ''expires_at'') = Some (JStr expires)"
    and "map_of d (ascii ''score'') = Some (JFloat x)"
  shows "format_clip rt i (JDict d) =
     Inr (str_int i @ ascii ''. **Relevance Score: '' @ float_3f rt x @ ascii ''**'' @ nl
          @ ascii ''   '' @ [0x1F4C4] @ ascii '' **AI Description:** '' @ description @ nl
          @ ascii ''   '' @ [0x1F4F9] @ ascii '' **Video URL:** '' @ url @ nl
          @ ascii ''   '' @ [0x23F0] @ ascii '' **URL Expires:** ''
              @ (if 84 \<in> set expires then take 19 expires else expires) @ nl
          @ ascii ''   '' @ [0x1F3AC] @ ascii '' **Video ID:** '' @ take 8 video @ ascii ''...'' @ nl
          @ ascii ''   '' @ [0x1F4DD] @ ascii '' **Chunk ID:** '' @ take 8 chunk @ ascii ''...'')"
  by (simp add: format_clip_def expires_str_def and_then_def assms)

lemma format_demo_clip:
  "format_clip demo_runtime i (demo_clip video chunk expires) =
     Inr (str_int i @ ascii ''. **Relevance Score: '' @ float_3f demo_runtime 842 @ ascii ''**'' @ nl
          @ ascii ''   '' @ [0x1F4C4] @ ascii '' **AI Description:** '' @ ascii ''A red car drives past'' @ nl
          @ ascii ''   '' @ [0x1F4F9] @ ascii '' **Video URL:** '' @ ascii ''https://cdn.example/c.mp4'' @ nl
          @ ascii ''   '' @ [0x23F0] @ ascii '' **URL Expires:** ''
              @ (if 84 \<in> set expires then take 19 expires else expires) @ nl
          @ ascii ''   '' @ [0x1F3AC] @ ascii '' **Video ID:** '' @ take 8 video @ ascii ''...'' @ nl
          @ ascii ''   '' @ [0x1F4DD] @ ascii '' **Chunk ID:** '' @ take 8 chunk @ ascii ''...'')"
  unfolding demo_clip_def by (rule format_clip_fields [OF demo_clip_fields])

lemma ClipResult_fields:
  assumes "ClipResult c"
  obtains d chunk video description url expires x where
    "c = JDict d"
    "map_of d (ascii ''chunk_id'') = Some (JStr chunk)"
    "map_of d (ascii ''video_id'') = Some (JStr video)"
    "map_of d (ascii ''description'') = Some (JStr description)"
    "map_of d (ascii ''url'') = Some (JStr url)"
    "map_of d (ascii ''expires_at'') = Some (JStr expires)"
    "map_of d (ascii ''score'') = Some (JFloat x)"
proof (cases c)
  case (JDict d)
  with assms have h: "has_str d (ascii ''chunk_id'')" "has_str d (ascii ''video_id'')"
    "has_str d (ascii ''description'')" "has_str d (ascii ''url'')"
    "has_str d (ascii ''expires_at'')" "has_float d (ascii ''score'')"
    by simp_all
  from h(1) obtain chunk where 1: "map_of d (ascii ''chunk_id'') = Some (JStr chunk)"
    by (auto simp: has_str_def split: option.splits jvalue.splits)
  from h(2) obtain video where 2: "map_of d (ascii ''video_id'') = Some (JStr video)"
    by (auto simp: has_str_def split: option.splits jvalue.splits)
  from h(3) obtain description where 3: "map_of d (ascii ''description'') = Some (JStr description)"
    by (auto simp: has_str_def split: option.splits jvalue.splits)
  from h(4) obtain url where 4: "map_of d (ascii ''url'') = Some (JStr url)"
    by (auto simp: has_str_def split: option.splits jvalue.splits)
  from h(5) obtain expires where 5: "map_of d (ascii ''expires_at'') = Some (JStr expires)"
    by (auto simp: has_str_def split: option.splits jvalue.splits)
  from h(6) obtain x where 6: "map_of d (ascii ''score'') = Some (JFloat x)"
    by (auto simp: has_float_def split: option.splits jvalue.splits)
  from that [OF JDict 1 2 3 4 5 6] show ?thesis .
qed (use assms in simp_all)

lemma format_clip_ClipResult:
  assumes "ClipResult c"
  shows "\<exists>chunk video description url expires x.
     clip_fields c chunk video description url expires x
     \<and> format_clip rt i c =
       Inr (str_int i @ ascii ''. **Relevance Score: '' @ float_3f rt x @ ascii ''**'' @ [10]
          @ ascii ''   '' @ [0x1F4C4] @ ascii '' **AI Description:** '' @ description @ [10]
          @ ascii ''   '' @ [0x1F4F9] @ ascii '' **Video URL:** '' @ url @ [10]
          @ ascii ''   '' @ [0x23F0] @ ascii '' **URL Expires:** ''
              @ (if 84 \<in> set expires then take 19 expires else expires) @ [10]
          @ ascii ''   '' @ [0x1F3AC] @ ascii '' **Video ID:** '' @ take 8 video @ ascii ''...'' @ [10]
          @ ascii ''   '' @ [0x1F4DD] @ ascii '' **Chunk ID:** '' @ take 8 chunk @ ascii ''...'')"
proof -
  from assms obtain d chunk video description url expires x where f:
    "c = JDict d"
    "map_of d (ascii ''chunk_id'') = Some (JStr chunk)"
    "map_of d (ascii ''video_id'') = Some (JStr video)"
    "map_of d (ascii ''description'') = Some (JStr description)"
    "map_of d (ascii ''url'') = Some (JStr url)"
    "map_of d (ascii ''expires_at'') = Some (JStr expires)"
    "map_of d (ascii ''score'') = Some (JFloat x)"
    by (rule ClipResult_fields)
  have "clip_fields c chunk video description url expires x"
    using f by simp
  moreover note format_clip_fields [OF f(2-7), of rt i, unfolded nl_def, folded f(1)]
  ultimately show ?thesis by blast
qed

lemma format_results_blocks:
  assumes "\<forall>c\<in>set cs. ClipResult c"
  shows "\<exists>blocks. format_results rt i cs acc = Inr (acc @ blocks)
           \<and> length blocks = length cs
           \<and> (\<forall>k<length cs. format_clip rt (i + int k) (cs ! k) = Inr (blocks ! k))"
  using assms
proof (induction cs arbitrary: i acc)
  case Nil
  then show ?case by simp
next
  case (Cons c cs)
  from Cons.prems have "ClipResult c" by simp
  then obtain b where b: "format_clip rt i c = Inr b"
    using format_clip_ClipResult [of c rt i] by blast
  from Cons.prems have "\<forall>c\<in>set cs. ClipResult c" by simp
  from Cons.IH [OF this, of "i + 1" "acc @ [b]"]
  obtain bs where bs: "format_results rt (i + 1) cs (acc @ [b]) = Inr ((acc @ [b]) @ bs)"
    "length bs = length cs"
    "\<forall>k<length cs. format_clip rt (i + 1 + int k) (cs ! k) = Inr (bs ! k)"
    by blast
  have "format_results rt i (c # cs) acc = Inr (acc @ (b # bs))"
    using b bs(1) by (simp add: and_then_def)
  moreover have "length (b # bs) = length (c # cs)"
    using bs(2) by simp
  moreover have "\<forall>k<length (c # cs). format_clip rt (i + int k) ((c # cs) ! k) = Inr ((b # bs) ! k)"
  proof (intro allI impI)
    fix k assume k: "k < length (c # cs)"
    show "format_clip rt (i + int k) ((c # cs) ! k) = Inr ((b # bs) ! k)"
    proof (cases k)
      case 0
      then show ?thesis using b by simp
    next
      case (Suc j)
      with k have "j < length cs" by simp
      with bs(3) have "format_clip rt (i + 1 + int j) (cs ! j) = Inr (bs ! j)" by blast
      moreover have "i + 1 + int j = i + int k" using Suc by simp
      ultimately show ?thesis using Suc by simp
    qed
  qed
  ultimately show ?case by blast
qed

lemma query_videos_found:
  assumes uid: "user_id (session_config ctx) \<noteq> []"
    and post: "post api_url (request_body (user_id (session_config ctx)) query max_results) = Inr response"
    and status: "status_code response = 200"
    and data: "json response = Inr (JDict d)"
    and clips: "map_of d (ascii ''clips'') = Some (JList clips)"
    and nonempty: "clips \<noteq> []"
    and wf: "\<forall>c\<in>set (take 15 clips). ClipResult c"
  shows "\<exists>blocks. length blocks = min (length clips) 15
           \<and> (\<forall>k<length blocks. format_clip rt (int k + 1) (clips ! k) = Inr (blocks ! k))
           \<and> snd (query_videos rt post ctx query max_results)
               = Inr (summary (int (length clips)) query
                      @ join (nl @ nl) blocks @ nl @ nl @ usage_tips)"
proof -
  from format_results_blocks [OF wf, of rt 1 "[]"]
  obtain blocks where bl: "format_results rt 1 (take 15 clips) [] = Inr blocks"
    "length blocks = length (take 15 clips)"
    "\<forall>k<length (take 15 clips). format_clip rt (1 + int k) (take 15 clips ! k) = Inr (blocks ! k)"
    by auto
  have len: "length blocks = min (length clips) 15"
    using bl(2) by simp
  have each: "\<forall>k<length blocks. format_clip rt (int k + 1) (clips ! k) = Inr (blocks ! k)"
  proof (intro allI impI)
    fix k assume k: "k < length blocks"
    then have "k < length (take 15 clips)" using bl(2) by simp
    with bl(3) have "format_clip rt (1 + int k) (take 15 clips ! k) = Inr (blocks ! k)" by blast
    moreover have "take 15 clips ! k = clips ! k" using k len by simp
    ultimately show "format_clip rt (int k + 1) (clips ! k) = Inr (blocks ! k)"
      by (simp add: add.commute)
  qed
  have "format_response rt query (JDict d)
      = Inr (summary (int (length clips)) query @ join (nl @ nl) blocks @ nl @ nl @ usage_tips)"
    using clips nonempty bl(1) by (simp add: format_response_def and_then_def)
  then have "snd (query_videos rt post ctx query max_results)
      = Inr (summary (int (length clips)) query @ join (nl @ nl) blocks @ nl @ nl @ usage_tips)"
    using uid post status data
    by (simp add: query_videos_def query_videos_try_def Let_def and_then_def)
  with len each show ?thesis by blast
qed

lemma query_videos_no_clips:
  assumes "user_id (session_config ctx) \<noteq> []"
    and "post api_url (request_body (user_id (session_config ctx)) query max_results) = Inr response"
    and "status_code response = 200"
    and "json response = Inr (JDict d)"
    and "map_of d (ascii ''clips'') = None \<or> map_of d (ascii ''clips'') = Some (JList [])"
  shows "snd (query_videos rt post ctx query max_results)
     = Inr (ascii ''No video clips found for query: '' @ [39] @ query @ [39] @ no_clips_causes)"
proof -
  have "format_response rt query (JDict d)
      = Inr (ascii ''No video clips found for query: '' @ apos @ query @ apos @ no_clips_causes)"
    using assms(5) by (auto simp: format_response_def and_then_def)
  then show ?thesis
    using assms(1-4)
    by (simp add: query_videos_def query_videos_try_def Let_def and_then_def apos_def)
qed

lemma take_short: "(if length v < 8 then v else take 8 v) = take 8 v"
  by simp

lemma two_elements: "length xs = 2 \<Longrightarrow> xs = [xs ! 0, xs ! 1]"
  by (cases xs; cases "tl xs") auto

subsection \<open>Substrings\<close>

lemma sublist_split_at:
  assumes "sublist m (xs @ c # ys)" and "c \<notin> set m"
  shows "sublist m xs \<or> sublist m ys"
proof -
  from assms(1) consider "sublist m xs" | "sublist m (c # ys)"
    | m1 m2 where "m = m1 @ m2" "suffix m1 xs" "prefix m2 (c # ys)"
    by (auto simp: sublist_append)
  then show ?thesis
  proof cases
    case 1
    then show ?thesis by simp
  next
    case 2
    then have "prefix m (c # ys) \<or> sublist m ys" by (simp add: sublist_Cons_right)
    moreover have "prefix m (c # ys) \<Longrightarrow> m = []"
      using assms(2) by (cases m) auto
    ultimately show ?thesis by auto
  next
    case 3
    have "m2 = []" using 3(1,3) assms(2) by (cases m2) auto
    with 3 show ?thesis by auto
  qed
qed

lemma no_star_no_marker:
  assumes "42 \<notin> set xs"
  shows "\<not> sublist rank_marker xs"
proof
  assume "sublist rank_marker xs"
  then have "set rank_marker \<subseteq> set xs" by (rule set_mono_sublist)
  moreover have "42 \<in> set rank_marker" by (simp add: rank_marker_def ascii_def)
  ultimately show False using assms by blast
qed

lemma no_marker_before_query:
  "\<not> sublist rank_marker (ascii ''No video clips found for query: '')"
  by (rule no_star_no_marker) (simp add: ascii_def)

lemma no_marker_in_causes: "\<not> sublist rank_marker no_clips_causes"
  by (rule no_star_no_marker) (simp add: no_clips_causes_def ascii_def nl_def bullet_def)

lemma apos_not_in_marker: "39 \<notin> set rank_marker"
  by (simp add: rank_marker_def ascii_def)

lemma suffix_same_length:
  assumes "suffix xs zs" and "suffix ys zs" and "length xs = length ys"
  shows "xs = ys"
  using assms by (auto simp: suffix_def)

subsection \<open>The operation\<close>




text \<open>
  C2. With an empty \<open>user_id\<close> in the session configuration the operation returns the
  text \<open>Error: User ID is required in configuration\<close> and sends no request.
\<close>

theorem empty_user_id:
  assumes "user_id (session_config ctx) = []"
  shows "snd (query_videos rt post ctx query max_results)
           = Inr (ascii ''Error: User ID is required in configuration'')
         \<and> prefix (ascii ''Error: User ID is required in configuration'')
              (projr (snd (query_videos rt post ctx query max_results)))
         \<and> requests (fst (query_videos rt post ctx query max_results)) = []
         \<and> fst (query_videos rt post ctx query max_results) = []"
  using assms by (simp add: query_videos_def query_videos_try_def)

theorem empty_user_id_witness:
  "user_id (session_config (demo_context [])) = []
   \<and> snd (query_videos demo_runtime (answers (Inr unavailable)) (demo_context []) (ascii ''red car'') 10)
       = Inr (ascii ''Error: User ID is required in configuration'')
   \<and> requests (fst (query_videos demo_runtime (answers (Inr unavailable)) (demo_context []) (ascii ''red car'') 10)) = []"
  using empty_user_id [of "demo_context []" demo_runtime "answers (Inr unavailable)" "ascii ''red car''" 10]
  by (simp add: demo_context_def)

text \<open>
  C3. Whenever a request is sent (the \<open>user_id\<close> is not empty), exactly one is sent and
  its \<open>top_k\<close> is \<open>min(max_results, 15)\<close>: 15 above 15, \<open>max_results\<close> itself from 1 to 15,
  and \<open>max_results\<close> itself when it is zero or negative.
\<close>

theorem top_k_min:
  assumes "user_id (session_config ctx) \<noteq> []"
  shows "map top_k (requests (fst (query_videos rt post ctx query max_results)))
           = [Some (JInt (min max_results 15))]
         \<and> (15 < max_results \<longrightarrow>
              map top_k (requests (fst (query_videos rt post ctx query max_results))) = [Some (JInt 15)])
         \<and> (1 \<le> max_results \<and> max_results \<le> 15 \<longrightarrow>
              map top_k (requests (fst (query_videos rt post ctx query max_results))) = [Some (JInt max_results)])
         \<and> (max_results \<le> 0 \<longrightarrow>
              map top_k (requests (fst (query_videos rt post ctx query max_results))) = [Some (JInt max_results)])"
  by (simp add: requests_query_videos [OF assms] top_k_request_body)

theorem top_k_min_witness:
  "user_id (session_config (demo_context (ascii ''u1''))) \<noteq> []
   \<and> (15 < (40::int))
   \<and> map top_k (requests (fst (query_videos demo_runtime (answers (Inr unavailable))
          (demo_context (ascii ''u1'')) (ascii ''red car'') 40))) = [Some (JInt 15)]"
  using top_k_min [OF demo_user, of demo_runtime "answers (Inr unavailable)" "ascii ''red car''" 40]
    demo_user
  by simp

text \<open>
  C4, as stated, fails: for \<open>max_results = 0\<close> the request carries \<open>top_k = 0\<close>, which is
  outside the range from 1 to 15.
\<close>

theorem top_k_range_counterexample:
  "map top_k (requests (fst (query_videos demo_runtime (answers (Inr unavailable))
       (demo_context (ascii ''u1'')) (ascii ''red car'') 0))) = [Some (JInt 0)]
   \<and> \<not> (1 \<le> (0::int) \<and> (0::int) \<le> 15)"
  by (simp add: requests_query_videos [OF demo_user] top_k_request_body)

text \<open>
  C4, amended. The \<open>top_k\<close> sent is at most 15 for every \<open>max_results\<close>; it lies in the
  range from 1 to 15 for every \<open>max_results \<ge> 1\<close>; and for \<open>max_results \<le> 0\<close> it is
  \<open>max_results\<close> itself, since no lower bound is applied.
\<close>

theorem top_k_upper_bound:
  assumes "user_id (session_config ctx) \<noteq> []"
  shows "\<exists>k. map top_k (requests (fst (query_videos rt post ctx query max_results))) = [Some (JInt k)]
           \<and> k \<le> 15
           \<and> (1 \<le> max_results \<longrightarrow> 1 \<le> k \<and> k \<le> 15)
           \<and> (max_results \<le> 0 \<longrightarrow> k = max_results)"
  by (simp add: requests_query_videos [OF assms] top_k_request_body)

theorem top_k_upper_bound_witness:
  "(\<exists>k. map top_k (requests (fst (query_videos demo_runtime (answers (Inr unavailable))
         (demo_context (ascii ''u1'')) (ascii ''red car'') 7))) = [Some (JInt k)]
        \<and> 1 \<le> k \<and> k \<le> 15)
   \<and> (\<exists>k. map top_k (requests (fst (query_videos demo_runtime (answers (Inr unavailable))
         (demo_context (ascii ''u1'')) (ascii ''red car'') (- 3)))) = [Some (JInt k)]
        \<and> k = - 3 \<and> k \<le> 15)"
  using top_k_upper_bound [OF demo_user, of demo_runtime "answers (Inr unavailable)" "ascii ''red car''" 7]
    top_k_upper_bound [OF demo_user, of demo_runtime "answers (Inr unavailable)" "ascii ''red car''" "- 3"]
  by auto

text \<open>
  C5. When the response has a status other than 200, the operation returns
  \<open>Error querying videos: <status> - <body>\<close>, which contains the decimal status code and
  the raw body, and \<open>json()\<close> is never called on the response.
\<close>

theorem non_200_status:
  assumes "user_id (session_config ctx) \<noteq> []"
    and "post api_url (request_body (user_id (session_config ctx)) query max_results) = Inr response"
    and "status_code response \<noteq> 200"
  shows "snd (query_videos rt post ctx query max_results)
           = Inr (ascii ''Error querying videos: '' @ str_int (status_code response)
                  @ ascii '' - '' @ text response)
         \<and> sublist (str_int (status_code response))
              (projr (snd (query_videos rt post ctx query max_results)))
         \<and> sublist (text response) (projr (snd (query_videos rt post ctx query max_results)))
         \<and> Json \<notin> set (fst (query_videos rt post ctx query max_results))"
proof -
  have eq: "query_videos rt post ctx query max_results
      = ([Post api_url (request_body (user_id (session_config ctx)) query max_results)],
         Inr (ascii ''Error querying videos: '' @ str_int (status_code response)
              @ ascii '' - '' @ text response))"
    using assms by (simp add: query_videos_def query_videos_try_def Let_def)
  have s1: "sublist (str_int (status_code response))
      (ascii ''Error querying videos: '' @ str_int (status_code response) @ ascii '' - '' @ text response)"
    by (rule sublist_appendI)
  have s2: "sublist (text response)
      (ascii ''Error querying videos: '' @ str_int (status_code response) @ ascii '' - '' @ text response)"
    using sublist_append_leftI [of "text response" "ascii ''Error querying videos: '' @ str_int (status_code response) @ ascii '' - ''"]
    by simp
  show ?thesis unfolding eq using s1 s2 by simp
qed

theorem non_200_status_witness:
  "snd (query_videos demo_runtime (answers (Inr unavailable)) (demo_context (ascii ''u1'')) (ascii ''red car'') 10)
     = Inr (ascii ''Error querying videos: 503 - service unavailable'')
   \<and> sublist (ascii ''503'') (projr (snd (query_videos demo_runtime (answers (Inr unavailable)) (demo_context (ascii ''u1'')) (ascii ''red car'') 10)))
   \<and> sublist (ascii ''service unavailable'') (projr (snd (query_videos demo_runtime (answers (Inr unavailable)) (demo_context (ascii ''u1'')) (ascii ''red car'') 10)))
   \<and> Json \<notin> set (fst (query_videos demo_runtime (answers (Inr unavailable)) (demo_context (ascii ''u1'')) (ascii ''red car'') 10))"
proof -
  let ?out = "query_videos demo_runtime (answers (Inr unavailable)) (demo_context (ascii ''u1'')) (ascii ''red car'') 10"
  have s: "str_int 503 = ascii ''503''" by code_simp
  have h2: "answers (Inr unavailable) api_url
      (request_body (user_id (session_config (demo_context (ascii ''u1'')))) (ascii ''red car'') 10) = Inr unavailable"
    by (simp add: answers_def)
  have h3: "status_code unavailable \<noteq> 200" by (simp add: unavailable_def)
  note th = non_200_status [of "demo_context (ascii ''u1'')" "answers (Inr unavailable)" "ascii ''red car''" 10
      unavailable demo_runtime, OF demo_user h2 h3]
  have A: "snd ?out = Inr (ascii ''Error querying videos: 503 - service unavailable'')"
    using th [THEN conjunct1] by (simp add: s ascii_def unavailable_def)
  have B: "sublist (ascii ''503'') (projr (snd ?out))"
    using th [THEN conjunct2, THEN conjunct1] by (simp add: s unavailable_def)
  have C: "sublist (ascii ''service unavailable'') (projr (snd ?out))"
    using th [THEN conjunct2, THEN conjunct2, THEN conjunct1] by (simp add: unavailable_def)
  have D: "Json \<notin> set (fst ?out)"
    using th [THEN conjunct2, THEN conjunct2, THEN conjunct2] by simp
  show ?thesis using A B C D by (intro conjI)
qed

text \<open>
  C6, as stated, fails: the query is echoed in the result, so a query that holds the text
  of a rank marker puts one into the "no clips" text.
\<close>

theorem query_with_marker_counterexample:
  "sublist (ascii ''. **Relevance Score: '')
     (projr (snd (query_videos demo_runtime
        (answers (Inr (ok_response (JDict [(ascii ''clips'', JList [])]))))
        (demo_context (ascii ''u1'')) (ascii ''1. **Relevance Score: 0.900**'') 10)))"
proof -
  let ?d = "[(ascii ''clips'', JList [])] :: (ustring \<times> nat jvalue) list"
  let ?q = "ascii ''1. **Relevance Score: 0.900**''"
  have h5: "map_of ?d (ascii ''clips'') = None \<or> map_of ?d (ascii ''clips'') = Some (JList [])"
    by simp
  have out: "snd (query_videos demo_runtime (answers (Inr (ok_response (JDict ?d))))
        (demo_context (ascii ''u1'')) ?q 10)
      = Inr (ascii ''No video clips found for query: '' @ [39] @ ?q @ [39] @ no_clips_causes)"
    by (rule query_videos_no_clips [of "demo_context (ascii ''u1'')"
          "answers (Inr (ok_response (JDict ?d)))" ?q 10 "ok_response (JDict ?d)" ?d demo_runtime,
          OF demo_user demo_post demo_ok(1) demo_ok(2) h5])
  have q: "?q = [49] @ ascii ''. **Relevance Score: '' @ ascii ''0.900**''"
    by (simp add: ascii_def)
  have e: "ascii ''No video clips found for query: '' @ [39] @ ?q @ [39] @ no_clips_causes
      = (ascii ''No video clips found for query: '' @ [39] @ [49]) @ ascii ''. **Relevance Score: ''
        @ (ascii ''0.900**'' @ [39] @ no_clips_causes)"
    unfolding q by (simp only: append_assoc)
  show ?thesis unfolding out sum.sel e by (rule sublist_appendI)
qed

text \<open>
  C6, amended. When a 200 response decodes to an object whose \<open>clips\<close> is missing or is
  the empty list, the operation returns the fixed "no clips" text (spelled out below)
  around the quoted query. It contains the query, and it contains a rank marker exactly
  when the query text itself contains one: the fixed text holds none.
\<close>

theorem no_clips:
  assumes "user_id (session_config ctx) \<noteq> []"
    and "post api_url (request_body (user_id (session_config ctx)) query max_results) = Inr response"
    and "status_code response = 200"
    and "json response = Inr (JDict d)"
    and "map_of d (ascii ''clips'') = None \<or> map_of d (ascii ''clips'') = Some (JList [])"
  shows "snd (query_videos rt post ctx query max_results)
           = Inr (ascii ''No video clips found for query: '' @ [39] @ query @ [39]
                  @ [10, 10] @ ascii ''This could mean:''
                  @ [10, 0x2022] @ ascii '' No videos have been uploaded for this user''
                  @ [10, 0x2022] @ ascii '' The query doesn't match any video content''
                  @ [10, 0x2022] @ ascii '' Try using different search terms or keywords'')
         \<and> sublist query (projr (snd (query_videos rt post ctx query max_results)))
         \<and> (sublist (ascii ''. **Relevance Score: '')
               (projr (snd (query_videos rt post ctx query max_results)))
             \<longleftrightarrow> sublist (ascii ''. **Relevance Score: '') query)"
proof -
  let ?a = "ascii ''No video clips found for query: ''"
  have eq: "snd (query_videos rt post ctx query max_results)
      = Inr (?a @ [39] @ query @ [39] @ no_clips_causes)"
    by (rule query_videos_no_clips [of ctx post query max_results response d rt, OF assms])
  have q: "sublist query (?a @ [39] @ query @ [39] @ no_clips_causes)"
    using sublist_appendI [of query "?a @ [39]" "[39] @ no_clips_causes"] by simp
  have c: "sublist rank_marker query"
    if "sublist rank_marker (?a @ [39] @ query @ [39] @ no_clips_causes)"
  proof -
    from that have "sublist rank_marker (?a @ 39 # (query @ 39 # no_clips_causes))"
      by simp
    then have "sublist rank_marker ?a \<or> sublist rank_marker (query @ 39 # no_clips_causes)"
      using apos_not_in_marker by (rule sublist_split_at)
    then have "sublist rank_marker (query @ 39 # no_clips_causes)"
      using no_marker_before_query by simp
    then have "sublist rank_marker query \<or> sublist rank_marker no_clips_causes"
      using apos_not_in_marker by (rule sublist_split_at)
    then show ?thesis using no_marker_in_causes by simp
  qed
  have d: "sublist rank_marker (?a @ [39] @ query @ [39] @ no_clips_causes)"
    if "sublist rank_marker query"
    using that q sublist_order.order.trans by blast
  have m: "sublist rank_marker (?a @ [39] @ query @ [39] @ no_clips_causes)
      \<longleftrightarrow> sublist rank_marker query"
    using c d by blast
  have causes: "no_clips_causes = [10, 10] @ ascii ''This could mean:''
     @ [10, 0x2022] @ ascii '' No videos have been uploaded for this user''
     @ [10, 0x2022] @ ascii '' The query doesn't match any video content''
     @ [10, 0x2022] @ ascii '' Try using different search terms or keywords''"
    by (simp add: no_clips_causes_def nl_def bullet_def)
  show ?thesis
    unfolding eq sum.sel using q m
    unfolding causes rank_marker_def by (simp only: simp_thms)
qed

theorem no_clips_witness:
  "snd (query_videos demo_runtime (answers (Inr (ok_response (JDict [(ascii ''clips'', JList [])]))))
          (demo_context (ascii ''u1'')) (ascii ''red car'') 10)
     = Inr (ascii ''No video clips found for query: '' @ [39] @ ascii ''red car'' @ [39]
            @ [10, 10] @ ascii ''This could mean:''
            @ [10, 0x2022] @ ascii '' No videos have been uploaded for this user''
            @ [10, 0x2022] @ ascii '' The query doesn't match any video content''
            @ [10, 0x2022] @ ascii '' Try using different search terms or keywords'')
   \<and> sublist (ascii ''red car'')
        (projr (snd (query_videos demo_runtime (answers (Inr (ok_response (JDict [(ascii ''clips'', JList [])]))))
          (demo_context (ascii ''u1'')) (ascii ''red car'') 10)))
   \<and> \<not> sublist (ascii ''. **Relevance Score: '')
        (projr (snd (query_videos demo_runtime (answers (Inr (ok_response (JDict [(ascii ''clips'', JList [])]))))
          (demo_context (ascii ''u1'')) (ascii ''red car'') 10)))
   \<and> snd (query_videos demo_runtime (answers (Inr (ok_response (JDict []))))
          (demo_context (ascii ''u1'')) (ascii ''red car'') 10)
     = Inr (ascii ''No video clips found for query: '' @ [39] @ ascii ''red car'' @ [39]
            @ [10, 10] @ ascii ''This could mean:''
            @ [10, 0x2022] @ ascii '' No videos have been uploaded for this user''
            @ [10, 0x2022] @ ascii '' The query doesn't match any video content''
            @ [10, 0x2022] @ ascii '' Try using different search terms or keywords'')"
proof -
  let ?d = "[(ascii ''clips'', JList [])] :: (ustring \<times> nat jvalue) list"
  have nq: "\<not> sublist (ascii ''. **Relevance Score: '') (ascii ''red car'')"
    using no_star_no_marker [of "ascii ''red car''"] by (simp add: ascii_def rank_marker_def)
  have h5: "map_of ?d (ascii ''clips'') = None \<or> map_of ?d (ascii ''clips'') = Some (JList [])"
    by simp
  have h5': "map_of ([] :: (ustring \<times> nat jvalue) list) (ascii ''clips'') = None
      \<or> map_of ([] :: (ustring \<times> nat jvalue) list) (ascii ''clips'') = Some (JList [])"
    by simp
  note th = no_clips [of "demo_context (ascii ''u1'')" "answers (Inr (ok_response (JDict ?d)))"
      "ascii ''red car''" 10 "ok_response (JDict ?d)" ?d demo_runtime,
      OF demo_user demo_post demo_ok(1) demo_ok(2) h5]
  note th' = no_clips [of "demo_context (ascii ''u1'')" "answers (Inr (ok_response (JDict [])))"
      "ascii ''red car''" 10 "ok_response (JDict [])" "[]" demo_runtime,
      OF demo_user demo_post demo_ok(1) demo_ok(2) h5']
  from th th' nq show ?thesis by blast
qed

text \<open>
  C7. When a 200 response carries \<open>n \<ge> 1\<close> clip records, the result is the header, then
  \<open>min(n, 15)\<close> blocks, each followed by a blank line, then the tips, all spelled out
  below. Block number \<open>k\<close> (counted from 0) starts with the rank \<open>k + 1\<close> in decimal and
  shows the fields of the \<open>k\<close>-th clip of the response: the order is that of the response.
\<close>

theorem result_blocks:
  assumes "user_id (session_config ctx) \<noteq> []"
    and "post api_url (request_body (user_id (session_config ctx)) query max_results) = Inr response"
    and "status_code response = 200"
    and "json response = Inr (JDict d)"
    and "map_of d (ascii ''clips'') = Some (JList clips)"
    and "clips \<noteq> []"
    and "\<forall>c\<in>set (take 15 clips). ClipResult c"
  shows "\<exists>blocks. length blocks = min (length clips) 15
     \<and> (\<forall>k<length blocks. \<exists>chunk video description url expires x.
           clip_fields (clips ! k) chunk video description url expires x
           \<and> blocks ! k =
               ranks ! k @ ascii ''. **Relevance Score: '' @ float_3f rt x @ ascii ''**'' @ [10]
               @ ascii ''   '' @ [0x1F4C4] @ ascii '' **AI Description:** '' @ description @ [10]
               @ ascii ''   '' @ [0x1F4F9] @ ascii '' **Video URL:** '' @ url @ [10]
               @ ascii ''   '' @ [0x23F0] @ ascii '' **URL Expires:** ''
                   @ (if 84 \<in> set expires then take 19 expires else expires) @ [10]
               @ ascii ''   '' @ [0x1F3AC] @ ascii '' **Video ID:** '' @ take 8 video @ ascii ''...'' @ [10]
               @ ascii ''   '' @ [0x1F4DD] @ ascii '' **Chunk ID:** '' @ take 8 chunk @ ascii ''...'')
     \<and> snd (query_videos rt post ctx query max_results)
         = Inr ([0x1F3AF] @ ascii '' **Found '' @ str_int (int (length clips))
                @ ascii '' relevant video clips for query:** '' @ [39] @ query @ [39] @ [10, 10]
                @ [0x1F4CA] @ ascii '' **Results sorted by relevance score (higher = more relevant)**''
                @ [10, 10]
                @ concat (map (\<lambda>b. b @ [10, 10]) blocks)
                @ [0x1F4A1] @ ascii '' **Usage Tips:**''
                @ [10, 0x2022] @ ascii '' Read the AI-generated descriptions to understand video content before clicking''
                @ [10, 0x2022] @ ascii '' Click video URLs to view the actual clips''
                @ [10, 0x2022] @ ascii '' URLs expire after the specified time - use them promptly''
                @ [10, 0x2022] @ ascii '' Each video segment represents approximately 30 seconds of content''
                @ [10, 0x2022] @ ascii '' Descriptions include both visual content analysis and audio transcription'')"
proof -
  have joined: "join sep parts @ sep = concat (map (\<lambda>b. b @ sep) parts)"
    if "parts \<noteq> []" for sep :: ustring and parts
    using that by (induction sep parts rule: join.induct) simp_all
  have rank: "str_int (int k + 1) = ranks ! k" if "k < 15" for k
  proof -
    have r: "str_int 1 = ascii ''1''" "str_int 2 = ascii ''2''" "str_int 3 = ascii ''3''"
      "str_int 4 = ascii ''4''" "str_int 5 = ascii ''5''" "str_int 6 = ascii ''6''"
      "str_int 7 = ascii ''7''" "str_int 8 = ascii ''8''" "str_int 9 = ascii ''9''"
      "str_int 10 = ascii ''10''" "str_int 11 = ascii ''11''" "str_int 12 = ascii ''12''"
      "str_int 13 = ascii ''13''" "str_int 14 = ascii ''14''" "str_int 15 = ascii ''15''"
      by code_simp+
    from that consider "k = 0" | "k = 1" | "k = 2" | "k = 3" | "k = 4" | "k = 5" | "k = 6"
      | "k = 7" | "k = 8" | "k = 9" | "k = 10" | "k = 11" | "k = 12" | "k = 13" | "k = 14"
      by atomize_elim arith
    then show ?thesis
      by cases (simp_all add: r ranks_def)
  qed
  from query_videos_found [of ctx post query max_results response d clips rt, OF assms]
  obtain blocks where len: "length blocks = min (length clips) 15"
    and rendered: "\<forall>k<length blocks. format_clip rt (int k + 1) (clips ! k) = Inr (blocks ! k)"
    and returned: "snd (query_videos rt post ctx query max_results)
       = Inr (summary (int (length clips)) query @ join (nl @ nl) blocks @ nl @ nl @ usage_tips)"
    by blast
  have ne: "blocks \<noteq> []"
    using len assms(6) by (cases clips) auto
  have each: "\<exists>chunk video description url expires x.
           clip_fields (clips ! k) chunk video description url expires x
           \<and> blocks ! k =
               ranks ! k @ ascii ''. **Relevance Score: '' @ float_3f rt x @ ascii ''**'' @ [10]
               @ ascii ''   '' @ [0x1F4C4] @ ascii '' **AI Description:** '' @ description @ [10]
               @ ascii ''   '' @ [0x1F4F9] @ ascii '' **Video URL:** '' @ url @ [10]
               @ ascii ''   '' @ [0x23F0] @ ascii '' **URL Expires:** ''
                   @ (if 84 \<in> set expires then take 19 expires else expires) @ [10]
               @ ascii ''   '' @ [0x1F3AC] @ ascii '' **Video ID:** '' @ take 8 video @ ascii ''...'' @ [10]
               @ ascii ''   '' @ [0x1F4DD] @ ascii '' **Chunk ID:** '' @ take 8 chunk @ ascii ''...''"
    if k: "k < length blocks" for k
  proof -
    from k len have k15: "k < 15" and kn: "k < length clips" by simp_all
    then have "clips ! k \<in> set (take 15 clips)"
      by (metis length_take min_less_iff_conj nth_mem nth_take)
    with assms(7) have "ClipResult (clips ! k)" by blast
    from format_clip_ClipResult [OF this, of rt "int k + 1"]
    obtain chunk video description url expires x where
      f: "clip_fields (clips ! k) chunk video description url expires x"
      and r: "format_clip rt (int k + 1) (clips ! k) =
       Inr (str_int (int k + 1) @ ascii ''. **Relevance Score: '' @ float_3f rt x @ ascii ''**'' @ [10]
          @ ascii ''   '' @ [0x1F4C4] @ ascii '' **AI Description:** '' @ description @ [10]
          @ ascii ''   '' @ [0x1F4F9] @ ascii '' **Video URL:** '' @ url @ [10]
          @ ascii ''   '' @ [0x23F0] @ ascii '' **URL Expires:** ''
              @ (if 84 \<in> set expires then take 19 expires else expires) @ [10]
          @ ascii ''   '' @ [0x1F3AC] @ ascii '' **Video ID:** '' @ take 8 video @ ascii ''...'' @ [10]
          @ ascii ''   '' @ [0x1F4DD] @ ascii '' **Chunk ID:** '' @ take 8 chunk @ ascii ''...'')"
      by blast
    from rendered k have "format_clip rt (int k + 1) (clips ! k) = Inr (blocks ! k)" by blast
    with r have "blocks ! k =
          str_int (int k + 1) @ ascii ''. **Relevance Score: '' @ float_3f rt x @ ascii ''**'' @ [10]
          @ ascii ''   '' @ [0x1F4C4] @ ascii '' **AI Description:** '' @ description @ [10]
          @ ascii ''   '' @ [0x1F4F9] @ ascii '' **Video URL:** '' @ url @ [10]
          @ ascii ''   '' @ [0x23F0] @ ascii '' **URL Expires:** ''
              @ (if 84 \<in> set expires then take 19 expires else expires) @ [10]
          @ ascii ''   '' @ [0x1F3AC] @ ascii '' **Video ID:** '' @ take 8 video @ ascii ''...'' @ [10]
          @ ascii ''   '' @ [0x1F4DD] @ ascii '' **Chunk ID:** '' @ take 8 chunk @ ascii ''...''"
      by (simp only: sum.inject)
    with f show ?thesis unfolding rank [OF k15] by blast
  qed
  have j: "join (nl @ nl) blocks @ nl @ nl @ usage_tips
      = concat (map (\<lambda>b. b @ [10, 10]) blocks) @ usage_tips"
    using joined [OF ne, of "nl @ nl"] by (simp add: nl_def)
  have out: "snd (query_videos rt post ctx query max_results)
         = Inr ([0x1F3AF] @ ascii '' **Found '' @ str_int (int (length clips))
                @ ascii '' relevant video clips for query:** '' @ [39] @ query @ [39] @ [10, 10]
                @ [0x1F4CA] @ ascii '' **Results sorted by relevance score (higher = more relevant)**''
                @ [10, 10]
                @ concat (map (\<lambda>b. b @ [10, 10]) blocks)
                @ [0x1F4A1] @ ascii '' **Usage Tips:**''
                @ [10, 0x2022] @ ascii '' Read the AI-generated descriptions to understand video content before clicking''
                @ [10, 0x2022] @ ascii '' Click video URLs to view the actual clips''
                @ [10, 0x2022] @ ascii '' URLs expire after the specified time - use them promptly''
                @ [10, 0x2022] @ ascii '' Each video segment represents approximately 30 seconds of content''
                @ [10, 0x2022] @ ascii '' Descriptions include both visual content analysis and audio transcription'')"
    using returned [unfolded j]
    by (simp add: summary_def usage_tips_def nl_def apos_def bullet_def)
  from len each out show ?thesis by blast
qed

theorem result_blocks_witness:
  "snd (query_videos demo_runtime
          (answers (Inr (ok_response (JDict [(ascii ''clips'',
             JList [demo_clip (ascii ''first-video-id'') (ascii ''first-chunk-id'') (ascii ''2026-01-01T10:00:00.123456''),
                    demo_clip (ascii ''second-video-id'') (ascii ''second-chunk-id'') (ascii ''tomorrow'')])]))))
          (demo_context (ascii ''u1'')) (ascii ''red car'') 10)
     = Inr ([0x1F3AF] @ ascii '' **Found 2 relevant video clips for query:** '' @ [39] @ ascii ''red car'' @ [39]
            @ [10, 10]
            @ [0x1F4CA] @ ascii '' **Results sorted by relevance score (higher = more relevant)**''
            @ [10, 10]
            @ ascii ''1. **Relevance Score: 0.842**'' @ [10]
            @ ascii ''   '' @ [0x1F4C4] @ ascii '' **AI Description:** A red car drives past'' @ [10]
            @ ascii ''   '' @ [0x1F4F9] @ ascii '' **Video URL:** https://cdn.example/c.mp4'' @ [10]
            @ ascii ''   '' @ [0x23F0] @ ascii '' **URL Expires:** 2026-01-01T10:00:00'' @ [10]
            @ ascii ''   '' @ [0x1F3AC] @ ascii '' **Video ID:** first-vi...'' @ [10]
            @ ascii ''   '' @ [0x1F4DD] @ ascii '' **Chunk ID:** first-ch...''
            @ [10, 10]
            @ ascii ''2. **Relevance Score: 0.842**'' @ [10]
            @ ascii ''   '' @ [0x1F4C4] @ ascii '' **AI Description:** A red car drives past'' @ [10]
            @ ascii ''   '' @ [0x1F4F9] @ ascii '' **Video URL:** https://cdn.example/c.mp4'' @ [10]
            @ ascii ''   '' @ [0x23F0] @ ascii '' **URL Expires:** tomorrow'' @ [10]
            @ ascii ''   '' @ [0x1F3AC] @ ascii '' **Video ID:** second-v...'' @ [10]
            @ ascii ''   '' @ [0x1F4DD] @ ascii '' **Chunk ID:** second-c...''
            @ [10, 10]
            @ [0x1F4A1] @ ascii '' **Usage Tips:**''
            @ [10, 0x2022] @ ascii '' Read the AI-generated descriptions to understand video content before clicking''
            @ [10, 0x2022] @ ascii '' Click video URLs to view the actual clips''
            @ [10, 0x2022] @ ascii '' URLs expire after the specified time - use them promptly''
            @ [10, 0x2022] @ ascii '' Each video segment represents approximately 30 seconds of content''
            @ [10, 0x2022] @ ascii '' Descriptions include both visual content analysis and audio transcription'')"
proof -
  let ?c1 = "demo_clip (ascii ''first-video-id'') (ascii ''first-chunk-id'') (ascii ''2026-01-01T10:00:00.123456'')"
  let ?c2 = "demo_clip (ascii ''second-video-id'') (ascii ''second-chunk-id'') (ascii ''tomorrow'')"
  let ?d = "[(ascii ''clips'', JList [?c1, ?c2])]"
  let ?out = "snd (query_videos demo_runtime (answers (Inr (ok_response (JDict ?d))))
          (demo_context (ascii ''u1'')) (ascii ''red car'') 10)"
  have h5: "map_of ?d (ascii ''clips'') = Some (JList [?c1, ?c2])" by simp
  have h6: "[?c1, ?c2] \<noteq> []" by simp
  have h7: "\<forall>c\<in>set (take 15 [?c1, ?c2]). ClipResult c" by simp
  from result_blocks [of "demo_context (ascii ''u1'')" "answers (Inr (ok_response (JDict ?d)))"
      "ascii ''red car''" 10 "ok_response (JDict ?d)" ?d "[?c1, ?c2]" demo_runtime,
      OF demo_user demo_post demo_ok(1) demo_ok(2) h5 h6 h7]
  obtain blocks where len: "length blocks = min (length [?c1, ?c2]) 15"
    and each: "\<forall>k<length blocks. \<exists>chunk video description url expires x.
           clip_fields ([?c1, ?c2] ! k) chunk video description url expires x
           \<and> blocks ! k =
               ranks ! k @ ascii ''. **Relevance Score: '' @ float_3f demo_runtime x @ ascii ''**'' @ [10]
               @ ascii ''   '' @ [0x1F4C4] @ ascii '' **AI Description:** '' @ description @ [10]
               @ ascii ''   '' @ [0x1F4F9] @ ascii '' **Video URL:** '' @ url @ [10]
               @ ascii ''   '' @ [0x23F0] @ ascii '' **URL Expires:** ''
                   @ (if 84 \<in> set expires then take 19 expires else expires) @ [10]
               @ ascii ''   '' @ [0x1F3AC] @ ascii '' **Video ID:** '' @ take 8 video @ ascii ''...'' @ [10]
               @ ascii ''   '' @ [0x1F4DD] @ ascii '' **Chunk ID:** '' @ take 8 chunk @ ascii ''...''"
    and out: "?out
         = Inr ([0x1F3AF] @ ascii '' **Found '' @ str_int (int (length [?c1, ?c2]))
                @ ascii '' relevant video clips for query:** '' @ [39] @ ascii ''red car'' @ [39] @ [10, 10]
                @ [0x1F4CA] @ ascii '' **Results sorted by relevance score (higher = more relevant)**''
                @ [10, 10]
                @ concat (map (\<lambda>b. b @ [10, 10]) blocks)
                @ [0x1F4A1] @ ascii '' **Usage Tips:**''
                @ [10, 0x2022] @ ascii '' Read the AI-generated descriptions to understand video content before clicking''
                @ [10, 0x2022] @ ascii '' Click video URLs to view the actual clips''
                @ [10, 0x2022] @ ascii '' URLs expire after the specified time - use them promptly''
                @ [10, 0x2022] @ ascii '' Each video segment represents approximately 30 seconds of content''
                @ [10, 0x2022] @ ascii '' Descriptions include both visual content analysis and audio transcription'')"
    by blast
  from len have l2: "length blocks = 2" by simp
  have two: "str_int (int (length [?c1, ?c2])) = ascii ''2''" by code_simp
  from each [rule_format, of 0] l2 have b0: "blocks ! 0 =
       ascii ''1. **Relevance Score: 0.842**'' @ [10]
       @ ascii ''   '' @ [0x1F4C4] @ ascii '' **AI Description:** A red car drives past'' @ [10]
       @ ascii ''   '' @ [0x1F4F9] @ ascii '' **Video URL:** https://cdn.example/c.mp4'' @ [10]
       @ ascii ''   '' @ [0x23F0] @ ascii '' **URL Expires:** 2026-01-01T10:00:00'' @ [10]
       @ ascii ''   '' @ [0x1F3AC] @ ascii '' **Video ID:** first-vi...'' @ [10]
       @ ascii ''   '' @ [0x1F4DD] @ ascii '' **Chunk ID:** first-ch...''"
    by (clarsimp simp: clip_fields_demo_clip demo_score ranks_def ascii_def)
  from each [rule_format, of 1] l2 have b1: "blocks ! 1 =
       ascii ''2. **Relevance Score: 0.842**'' @ [10]
       @ ascii ''   '' @ [0x1F4C4] @ ascii '' **AI Description:** A red car drives past'' @ [10]
       @ ascii ''   '' @ [0x1F4F9] @ ascii '' **Video URL:** https://cdn.example/c.mp4'' @ [10]
       @ ascii ''   '' @ [0x23F0] @ ascii '' **URL Expires:** tomorrow'' @ [10]
       @ ascii ''   '' @ [0x1F3AC] @ ascii '' **Video ID:** second-v...'' @ [10]
       @ ascii ''   '' @ [0x1F4DD] @ ascii '' **Chunk ID:** second-c...''"
    by (clarsimp simp: clip_fields_demo_clip demo_score ranks_def ascii_def)
  have bl: "blocks = [blocks ! 0, blocks ! 1]"
    using l2 by (rule two_elements)
  have "concat (map (\<lambda>b. b @ [10, 10]) blocks) = blocks ! 0 @ [10, 10] @ blocks ! 1 @ [10, 10]"
    by (subst bl) simp
  with out show ?thesis
    unfolding two b0 b1 by (simp add: ascii_def)
qed

text \<open>
  C8, as stated, fails for identifiers shorter than 8 characters: the ellipsis is appended
  to them too. For the \<open>video_id\<close> \<open>abc\<close> and the \<open>chunk_id\<close> \<open>c1\<close> the block ends with
  \<open>abc...\<close> and \<open>c1...\<close>, not with \<open>abc\<close> and \<open>c1\<close>.
\<close>

theorem short_id_counterexample:
  "suffix (ascii '' **Video ID:** abc...'' @ nl @ ascii ''   '' @ [0x1F4DD] @ ascii '' **Chunk ID:** c1...'')
     (projr (format_clip demo_runtime 1 (demo_clip (ascii ''abc'') (ascii ''c1'') (ascii ''tomorrow''))))
   \<and> \<not> suffix (ascii '' **Video ID:** abc'' @ nl @ ascii ''   '' @ [0x1F4DD] @ ascii '' **Chunk ID:** c1'')
     (projr (format_clip demo_runtime 1 (demo_clip (ascii ''abc'') (ascii ''c1'') (ascii ''tomorrow''))))"
proof -
  let ?block = "projr (format_clip demo_runtime 1 (demo_clip (ascii ''abc'') (ascii ''c1'') (ascii ''tomorrow'')))"
  let ?head = "str_int 1 @ ascii ''. **Relevance Score: '' @ float_3f demo_runtime 842 @ ascii ''**'' @ nl
          @ ascii ''   '' @ [0x1F4C4] @ ascii '' **AI Description:** '' @ ascii ''A red car drives past'' @ nl
          @ ascii ''   '' @ [0x1F4F9] @ ascii '' **Video URL:** '' @ ascii ''https://cdn.example/c.mp4'' @ nl
          @ ascii ''   '' @ [0x23F0] @ ascii '' **URL Expires:** ''
              @ (if 84 \<in> set (ascii ''tomorrow'') then take 19 (ascii ''tomorrow'') else ascii ''tomorrow'') @ nl
          @ ascii ''   '' @ [0x1F3AC]"
  let ?shown = "ascii '' **Video ID:** '' @ take 8 (ascii ''abc'') @ ascii ''...'' @ nl
          @ ascii ''   '' @ [0x1F4DD] @ ascii '' **Chunk ID:** '' @ take 8 (ascii ''c1'') @ ascii ''...''"
  have b: "?block = ?head @ ?shown"
    unfolding format_demo_clip by (simp only: sum.sel append_assoc)
  have e: "?shown = ascii '' **Video ID:** abc...'' @ nl @ ascii ''   '' @ [0x1F4DD] @ ascii '' **Chunk ID:** c1...''"
    by (simp add: ascii_def)
  have yes: "suffix (ascii '' **Video ID:** abc...'' @ nl @ ascii ''   '' @ [0x1F4DD] @ ascii '' **Chunk ID:** c1...'') ?block"
    unfolding b e [symmetric] by (rule suffix_appendI) (rule suffix_order.refl)
  have no: "\<not> suffix (ascii '' **Video ID:** abc'' @ nl @ ascii ''   '' @ [0x1F4DD] @ ascii '' **Chunk ID:** c1'') ?block"
  proof
    assume "suffix (ascii '' **Video ID:** abc'' @ nl @ ascii ''   '' @ [0x1F4DD] @ ascii '' **Chunk ID:** c1'') ?block"
    moreover have "suffix (ascii ''c1'')
        (ascii '' **Video ID:** abc'' @ nl @ ascii ''   '' @ [0x1F4DD] @ ascii '' **Chunk ID:** c1'')"
      by (simp add: ascii_def suffix_def)
    ultimately have 1: "suffix (ascii ''c1'') ?block"
      by (rule suffix_order.trans [rotated])
    have "suffix (ascii ''..'')
        (ascii '' **Video ID:** abc...'' @ nl @ ascii ''   '' @ [0x1F4DD] @ ascii '' **Chunk ID:** c1...'')"
      by (simp add: ascii_def suffix_def)
    with yes have 2: "suffix (ascii ''..'') ?block"
      by (rule suffix_order.trans [rotated])
    have "ascii ''c1'' = ascii ''..''"
      using 1 2 by (rule suffix_same_length) (simp add: ascii_def)
    then show False by (simp add: ascii_def)
  qed
  from yes no show ?thesis by (rule conjI)
qed

text \<open>
  C8, amended. For every clip record the block ends with the \<open>Video ID\<close> line and the
  \<open>Chunk ID\<close> line, and each shows the first 8 characters of the identifier (the whole
  identifier when it is shorter than 8 characters) always followed by \<open>...\<close>.
\<close>

theorem id_display:
  assumes "map_of d (ascii ''chunk_id'') = Some (JStr chunk)"
    and "map_of d (ascii ''video_id'') = Some (JStr video)"
    and "map_of d (ascii ''description'') = Some (JStr description)"
    and "map_of d (ascii ''url'') = Some (JStr url)"
    and "map_of d (ascii ''expires_at'') = Some (JStr expires)"
    and "map_of d (ascii ''score'') = Some (JFloat x)"
  shows "\<not> isl (format_clip rt i (JDict d))
         \<and> suffix (ascii '' **Video ID:** ''
                    @ (if length video < 8 then video else take 8 video) @ ascii ''...'' @ nl
                  @ ascii ''   '' @ [0x1F4DD] @ ascii '' **Chunk ID:** ''
                    @ (if length chunk < 8 then chunk else take 8 chunk) @ ascii ''...'')
             (projr (format_clip rt i (JDict d)))"
proof -
  let ?head = "str_int i @ ascii ''. **Relevance Score: '' @ float_3f rt x @ ascii ''**'' @ nl
          @ ascii ''   '' @ [0x1F4C4] @ ascii '' **AI Description:** '' @ description @ nl
          @ ascii ''   '' @ [0x1F4F9] @ ascii '' **Video URL:** '' @ url @ nl
          @ ascii ''   '' @ [0x23F0] @ ascii '' **URL Expires:** ''
              @ (if 84 \<in> set expires then take 19 expires else expires) @ nl
          @ ascii ''   '' @ [0x1F3AC]"
  let ?shown = "ascii '' **Video ID:** '' @ take 8 video @ ascii ''...'' @ nl
          @ ascii ''   '' @ [0x1F4DD] @ ascii '' **Chunk ID:** '' @ take 8 chunk @ ascii ''...''"
  have "format_clip rt i (JDict d) = Inr (?head @ ?shown)"
    unfolding format_clip_fields [OF assms] by (simp only: append_assoc)
  moreover have "suffix ?shown (?head @ ?shown)"
    by (rule suffix_appendI) (rule suffix_order.refl)
  ultimately show ?thesis
    unfolding take_short by (simp only: sum.sel sum.disc simp_thms)
qed

theorem id_display_witness:
  "\<not> isl (format_clip demo_runtime 1 (demo_clip (ascii ''video-0001'') (ascii ''c1'') (ascii ''tomorrow'')))
   \<and> suffix (ascii '' **Video ID:** video-00...'' @ nl
             @ ascii ''   '' @ [0x1F4DD] @ ascii '' **Chunk ID:** c1...'')
        (projr (format_clip demo_runtime 1 (demo_clip (ascii ''video-0001'') (ascii ''c1'') (ascii ''tomorrow''))))"
proof -
  have e: "ascii '' **Video ID:** ''
             @ (if length (ascii ''video-0001'') < 8 then ascii ''video-0001'' else take 8 (ascii ''video-0001''))
             @ ascii ''...'' @ nl
           @ ascii ''   '' @ [0x1F4DD] @ ascii '' **Chunk ID:** ''
             @ (if length (ascii ''c1'') < 8 then ascii ''c1'' else take 8 (ascii ''c1'')) @ ascii ''...''
         = ascii '' **Video ID:** video-00...'' @ nl
             @ ascii ''   '' @ [0x1F4DD] @ ascii '' **Chunk ID:** c1...''"
    by (simp add: ascii_def)
  let ?d = "[(ascii ''chunk_id'', JStr (ascii ''c1'')), (ascii ''video_id'', JStr (ascii ''video-0001'')),
             (ascii ''description'', JStr (ascii ''A red car drives past'')),
             (ascii ''url'', JStr (ascii ''https://cdn.example/c.mp4'')),
             (ascii ''expires_at'', JStr (ascii ''tomorrow'')),
             (ascii ''score'', JFloat 842)] :: (ustring \<times> nat jvalue) list"
  from id_display [of ?d "ascii ''c1''" "ascii ''video-0001''"
      "ascii ''A red car drives past''" "ascii ''https://cdn.example/c.mp4''" "ascii ''tomorrow''" 842
      demo_runtime 1, OF demo_clip_fields]
  show ?thesis unfolding e demo_clip_def .
qed

text \<open>
  C9. For every clip record the value shown after \<open>URL Expires:\<close> is the first 19
  characters of \<open>expires_at\<close> when it contains the letter \<open>T\<close> (code point 84), the
  separator of date and time, and \<open>expires_at\<close> unchanged otherwise.
\<close>

theorem expiry_display:
  assumes "map_of d (ascii ''chunk_id'') = Some (JStr chunk)"
    and "map_of d (ascii ''video_id'') = Some (JStr video)"
    and "map_of d (ascii ''description'') = Some (JStr description)"
    and "map_of d (ascii ''url'') = Some (JStr url)"
    and "map_of d (ascii ''expires_at'') = Some (JStr expires)"
    and "map_of d (ascii ''score'') = Some (JFloat x)"
  shows "expires_str rt (JDict d) = Inr (JStr (if 84 \<in> set expires then take 19 expires else expires))
         \<and> \<not> isl (format_clip rt i (JDict d))
         \<and> sublist (ascii '' **URL Expires:** ''
                     @ (if 84 \<in> set expires then take 19 expires else expires) @ nl)
             (projr (format_clip rt i (JDict d)))"
proof -
  let ?head = "str_int i @ ascii ''. **Relevance Score: '' @ float_3f rt x @ ascii ''**'' @ nl
          @ ascii ''   '' @ [0x1F4C4] @ ascii '' **AI Description:** '' @ description @ nl
          @ ascii ''   '' @ [0x1F4F9] @ ascii '' **Video URL:** '' @ url @ nl
          @ ascii ''   '' @ [0x23F0]"
  let ?shown = "ascii '' **URL Expires:** ''
          @ (if 84 \<in> set expires then take 19 expires else expires) @ nl"
  let ?tail = "ascii ''   '' @ [0x1F3AC] @ ascii '' **Video ID:** '' @ take 8 video @ ascii ''...'' @ nl
          @ ascii ''   '' @ [0x1F4DD] @ ascii '' **Chunk ID:** '' @ take 8 chunk @ ascii ''...''"
  have e: "expires_str rt (JDict d) = Inr (JStr (if 84 \<in> set expires then take 19 expires else expires))"
    using assms(5) by (simp add: expires_str_def and_then_def)
  have b: "format_clip rt i (JDict d) = Inr (?head @ ?shown @ ?tail)"
    unfolding format_clip_fields [OF assms] by (simp only: append_assoc)
  have s: "sublist ?shown (?head @ ?shown @ ?tail)"
    by (rule sublist_appendI)
  show ?thesis
    unfolding b using e s by (simp only: sum.sel sum.disc simp_thms)
qed

theorem expiry_display_witness:
  "expires_str demo_runtime (demo_clip (ascii ''v1'') (ascii ''c1'') (ascii ''2026-01-01T10:00:00.123456''))
     = Inr (JStr (ascii ''2026-01-01T10:00:00''))
   \<and> sublist (ascii '' **URL Expires:** 2026-01-01T10:00:00'' @ nl)
        (projr (format_clip demo_runtime 1
           (demo_clip (ascii ''v1'') (ascii ''c1'') (ascii ''2026-01-01T10:00:00.123456''))))
   \<and> expires_str demo_runtime (demo_clip (ascii ''v1'') (ascii ''c1'') (ascii ''in one hour''))
     = Inr (JStr (ascii ''in one hour''))
   \<and> sublist (ascii '' **URL Expires:** in one hour'' @ nl)
        (projr (format_clip demo_runtime 1
           (demo_clip (ascii ''v1'') (ascii ''c1'') (ascii ''in one hour''))))"
proof -
  let ?d1 = "[(ascii ''chunk_id'', JStr (ascii ''c1'')), (ascii ''video_id'', JStr (ascii ''v1'')),
             (ascii ''description'', JStr (ascii ''A red car drives past'')),
             (ascii ''url'', JStr (ascii ''https://cdn.example/c.mp4'')),
             (ascii ''expires_at'', JStr (ascii ''2026-01-01T10:00:00.123456'')),
             (ascii ''score'', JFloat 842)] :: (ustring \<times> nat jvalue) list"
  let ?d2 = "[(ascii ''chunk_id'', JStr (ascii ''c1'')), (ascii ''video_id'', JStr (ascii ''v1'')),
             (ascii ''description'', JStr (ascii ''A red car drives past'')),
             (ascii ''url'', JStr (ascii ''https://cdn.example/c.mp4'')),
             (ascii ''expires_at'', JStr (ascii ''in one hour'')),
             (ascii ''score'', JFloat 842)] :: (ustring \<times> nat jvalue) list"
  have e1: "(if 84 \<in> set (ascii ''2026-01-01T10:00:00.123456'')
             then take 19 (ascii ''2026-01-01T10:00:00.123456'')
             else ascii ''2026-01-01T10:00:00.123456'') = ascii ''2026-01-01T10:00:00''"
    by (simp add: ascii_def)
  have e2: "(if 84 \<in> set (ascii ''in one hour'') then take 19 (ascii ''in one hour'')
             else ascii ''in one hour'') = ascii ''in one hour''"
    by (simp add: ascii_def)
  have a1: "ascii '' **URL Expires:** '' @ ascii ''2026-01-01T10:00:00'' @ nl
      = ascii '' **URL Expires:** 2026-01-01T10:00:00'' @ nl"
    by (simp add: ascii_def)
  have a2: "ascii '' **URL Expires:** '' @ ascii ''in one hour'' @ nl
      = ascii '' **URL Expires:** in one hour'' @ nl"
    by (simp add: ascii_def)
  note t1 = expiry_display [of ?d1 "ascii ''c1''" "ascii ''v1''"
      "ascii ''A red car drives past''" "ascii ''https://cdn.example/c.mp4''"
      "ascii ''2026-01-01T10:00:00.123456''" 842 demo_runtime 1, OF demo_clip_fields,
      unfolded e1 a1, folded demo_clip_def]
  note t2 = expiry_display [of ?d2 "ascii ''c1''" "ascii ''v1''"
      "ascii ''A red car drives past''" "ascii ''https://cdn.example/c.mp4''"
      "ascii ''in one hour''" 842 demo_runtime 1, OF demo_clip_fields,
      unfolded e2 a2, folded demo_clip_def]
  from t1 t2 show ?thesis by blast
qed

text \<open>
  C10. When a 200 response carries \<open>n \<ge> 1\<close> clip records, the result starts with the header
  \<open>Found n relevant video clips for query: 'query'\<close> with the full count \<open>n\<close>, while what
  follows the header is exactly \<open>min(n, 15)\<close> blocks, those of the first clips, and the
  tips: for \<open>n > 15\<close> there are 15 blocks, fewer than the header counts.
\<close>

theorem header_counts_all_clips:
  assumes "user_id (session_config ctx) \<noteq> []"
    and "post api_url (request_body (user_id (session_config ctx)) query max_results) = Inr response"
    and "status_code response = 200"
    and "json response = Inr (JDict d)"
    and "map_of d (ascii ''clips'') = Some (JList clips)"
    and "clips \<noteq> []"
    and "\<forall>c\<in>set (take 15 clips). ClipResult c"
  shows "prefix ([0x1F3AF] @ ascii '' **Found '' @ str_int (int (length clips))
                 @ ascii '' relevant video clips for query:** '' @ [39] @ query @ [39])
           (projr (snd (query_videos rt post ctx query max_results)))
     \<and> (\<exists>blocks. length blocks = min (length clips) 15
         \<and> (15 < length clips \<longrightarrow> length blocks = 15 \<and> length blocks < length clips)
         \<and> (\<forall>k<length blocks. \<exists>chunk video description url expires x.
           clip_fields (clips ! k) chunk video description url expires x
           \<and> blocks ! k =
               ranks ! k @ ascii ''. **Relevance Score: '' @ float_3f rt x @ ascii ''**'' @ [10]
               @ ascii ''   '' @ [0x1F4C4] @ ascii '' **AI Description:** '' @ description @ [10]
               @ ascii ''   '' @ [0x1F4F9] @ ascii '' **Video URL:** '' @ url @ [10]
               @ ascii ''   '' @ [0x23F0] @ ascii '' **URL Expires:** ''
                   @ (if 84 \<in> set expires then take 19 expires else expires) @ [10]
               @ ascii ''   '' @ [0x1F3AC] @ ascii '' **Video ID:** '' @ take 8 video @ ascii ''...'' @ [10]
               @ ascii ''   '' @ [0x1F4DD] @ ascii '' **Chunk ID:** '' @ take 8 chunk @ ascii ''...'')
         \<and> snd (query_videos rt post ctx query max_results)
         = Inr ([0x1F3AF] @ ascii '' **Found '' @ str_int (int (length clips))
                @ ascii '' relevant video clips for query:** '' @ [39] @ query @ [39] @ [10, 10]
                @ [0x1F4CA] @ ascii '' **Results sorted by relevance score (higher = more relevant)**''
                @ [10, 10]
                @ concat (map (\<lambda>b. b @ [10, 10]) blocks)
                @ [0x1F4A1] @ ascii '' **Usage Tips:**''
                @ [10, 0x2022] @ ascii '' Read the AI-generated descriptions to understand video content before clicking''
                @ [10, 0x2022] @ ascii '' Click video URLs to view the actual clips''
                @ [10, 0x2022] @ ascii '' URLs expire after the specified time - use them promptly''
                @ [10, 0x2022] @ ascii '' Each video segment represents approximately 30 seconds of content''
                @ [10, 0x2022] @ ascii '' Descriptions include both visual content analysis and audio transcription''))"
proof -
  have joined: "join sep parts @ sep = concat (map (\<lambda>b. b @ sep) parts)"
    if "parts \<noteq> []" for sep :: ustring and parts
    using that by (induction sep parts rule: join.induct) simp_all
  have rank: "str_int (int k + 1) = ranks ! k" if "k < 15" for k
  proof -
    have r: "str_int 1 = ascii ''1''" "str_int 2 = ascii ''2''" "str_int 3 = ascii ''3''"
      "str_int 4 = ascii ''4''" "str_int 5 = ascii ''5''" "str_int 6 = ascii ''6''"
      "str_int 7 = ascii ''7''" "str_int 8 = ascii ''8''" "str_int 9 = ascii ''9''"
      "str_int 10 = ascii ''10''" "str_int 11 = ascii ''11''" "str_int 12 = ascii ''12''"
      "str_int 13 = ascii ''13''" "str_int 14 = ascii ''14''" "str_int 15 = ascii ''15''"
      by code_simp+
    from that consider "k = 0" | "k = 1" | "k = 2" | "k = 3" | "k = 4" | "k = 5" | "k = 6"
      | "k = 7" | "k = 8" | "k = 9" | "k = 10" | "k = 11" | "k = 12" | "k = 13" | "k = 14"
      by atomize_elim arith
    then show ?thesis
      by cases (simp_all add: r ranks_def)
  qed
  from query_videos_found [of ctx post query max_results response d clips rt, OF assms]
  obtain blocks where len: "length blocks = min (length clips) 15"
    and rendered: "\<forall>k<length blocks. format_clip rt (int k + 1) (clips ! k) = Inr (blocks ! k)"
    and returned: "snd (query_videos rt post ctx query max_results)
       = Inr (summary (int (length clips)) query @ join (nl @ nl) blocks @ nl @ nl @ usage_tips)"
    by blast
  have ne: "blocks \<noteq> []"
    using len assms(6) by (cases clips) auto
  have each: "\<exists>chunk video description url expires x.
           clip_fields (clips ! k) chunk video description url expires x
           \<and> blocks ! k =
               ranks ! k @ ascii ''. **Relevance Score: '' @ float_3f rt x @ ascii ''**'' @ [10]
               @ ascii ''   '' @ [0x1F4C4] @ ascii '' **AI Description:** '' @ description @ [10]
               @ ascii ''   '' @ [0x1F4F9] @ ascii '' **Video URL:** '' @ url @ [10]
               @ ascii ''   '' @ [0x23F0] @ ascii '' **URL Expires:** ''
                   @ (if 84 \<in> set expires then take 19 expires else expires) @ [10]
               @ ascii ''   '' @ [0x1F3AC] @ ascii '' **Video ID:** '' @ take 8 video @ ascii ''...'' @ [10]
               @ ascii ''   '' @ [0x1F4DD] @ ascii '' **Chunk ID:** '' @ take 8 chunk @ ascii ''...''"
    if k: "k < length blocks" for k
  proof -
    from k len have k15: "k < 15" and kn: "k < length clips" by simp_all
    then have "clips ! k \<in> set (take 15 clips)"
      by (metis length_take min_less_iff_conj nth_mem nth_take)
    with assms(7) have "ClipResult (clips ! k)" by blast
    from format_clip_ClipResult [OF this, of rt "int k + 1"]
    obtain chunk video description url expires x where
      f: "clip_fields (clips ! k) chunk video description url expires x"
      and r: "format_clip rt (int k + 1) (clips ! k) =
       Inr (str_int (int k + 1) @ ascii ''. **Relevance Score: '' @ float_3f rt x @ ascii ''**'' @ [10]
          @ ascii ''   '' @ [0x1F4C4] @ ascii '' **AI Description:** '' @ description @ [10]
          @ ascii ''   '' @ [0x1F4F9] @ ascii '' **Video URL:** '' @ url @ [10]
          @ ascii ''   '' @ [0x23F0] @ ascii '' **URL Expires:** ''
              @ (if 84 \<in> set expires then take 19 expires else expires) @ [10]
          @ ascii ''   '' @ [0x1F3AC] @ ascii '' **Video ID:** '' @ take 8 video @ ascii ''...'' @ [10]
          @ ascii ''   '' @ [0x1F4DD] @ ascii '' **Chunk ID:** '' @ take 8 chunk @ ascii ''...'')"
      by blast
    from rendered k have "format_clip rt (int k + 1) (clips ! k) = Inr (blocks ! k)" by blast
    with r have "blocks ! k =
          str_int (int k + 1) @ ascii ''. **Relevance Score: '' @ float_3f rt x @ ascii ''**'' @ [10]
          @ ascii ''   '' @ [0x1F4C4] @ ascii '' **AI Description:** '' @ description @ [10]
          @ ascii ''   '' @ [0x1F4F9] @ ascii '' **Video URL:** '' @ url @ [10]
          @ ascii ''   '' @ [0x23F0] @ ascii '' **URL Expires:** ''
              @ (if 84 \<in> set expires then take 19 expires else expires) @ [10]
          @ ascii ''   '' @ [0x1F3AC] @ ascii '' **Video ID:** '' @ take 8 video @ ascii ''...'' @ [10]
          @ ascii ''   '' @ [0x1F4DD] @ ascii '' **Chunk ID:** '' @ take 8 chunk @ ascii ''...''"
      by (simp only: sum.inject)
    with f show ?thesis unfolding rank [OF k15] by blast
  qed
  have j: "join (nl @ nl) blocks @ nl @ nl @ usage_tips
      = concat (map (\<lambda>b. b @ [10, 10]) blocks) @ usage_tips"
    using joined [OF ne, of "nl @ nl"] by (simp add: nl_def)
  have out: "snd (query_videos rt post ctx query max_results)
         = Inr ([0x1F3AF] @ ascii '' **Found '' @ str_int (int (length clips))
                @ ascii '' relevant video clips for query:** '' @ [39] @ query @ [39] @ [10, 10]
                @ [0x1F4CA] @ ascii '' **Results sorted by relevance score (higher = more relevant)**''
                @ [10, 10]
                @ concat (map (\<lambda>b. b @ [10, 10]) blocks)
                @ [0x1F4A1] @ ascii '' **Usage Tips:**''
                @ [10, 0x2022] @ ascii '' Read the AI-generated descriptions to understand video content before clicking''
                @ [10, 0x2022] @ ascii '' Click video URLs to view the actual clips''
                @ [10, 0x2022] @ ascii '' URLs expire after the specified time - use them promptly''
                @ [10, 0x2022] @ ascii '' Each video segment represents approximately 30 seconds of content''
                @ [10, 0x2022] @ ascii '' Descriptions include both visual content analysis and audio transcription'')"
    using returned [unfolded j]
    by (simp add: summary_def usage_tips_def nl_def apos_def bullet_def)
  have fewer: "15 < length clips \<longrightarrow> length blocks = 15 \<and> length blocks < length clips"
    using len by simp
  have header: "prefix ([0x1F3AF] @ ascii '' **Found '' @ str_int (int (length clips))
                 @ ascii '' relevant video clips for query:** '' @ [39] @ query @ [39])
           (projr (snd (query_videos rt post ctx query max_results)))"
    unfolding out sum.sel
    by (simp only: append_assoc same_prefix_prefix prefixI append_Nil2)
  from header len fewer each out show ?thesis by blast
qed

theorem header_counts_all_clips_witness:
  "15 < length (replicate 16 (demo_clip (ascii ''first-video-id'') (ascii ''first-chunk-id'') (ascii ''tomorrow'')))
   \<and> prefix ([0x1F3AF] @ ascii '' **Found 16 relevant video clips for query:** '' @ [39] @ ascii ''red car'' @ [39])
        (projr (snd (query_videos demo_runtime
             (answers (Inr (ok_response (JDict [(ascii ''clips'',
                JList (replicate 16 (demo_clip (ascii ''first-video-id'') (ascii ''first-chunk-id'') (ascii ''tomorrow''))))]))))
             (demo_context (ascii ''u1'')) (ascii ''red car'') 10)))
   \<and> snd (query_videos demo_runtime
             (answers (Inr (ok_response (JDict [(ascii ''clips'',
                JList (replicate 16 (demo_clip (ascii ''first-video-id'') (ascii ''first-chunk-id'') (ascii ''tomorrow''))))]))))
             (demo_context (ascii ''u1'')) (ascii ''red car'') 10)
       = Inr ([0x1F3AF] @ ascii '' **Found 16 relevant video clips for query:** '' @ [39] @ ascii ''red car'' @ [39]
              @ [10, 10]
              @ [0x1F4CA] @ ascii '' **Results sorted by relevance score (higher = more relevant)**''
              @ [10, 10]
              @ concat (map (\<lambda>rank.
                    rank @ ascii ''. **Relevance Score: 0.842**'' @ [10]
                    @ ascii ''   '' @ [0x1F4C4] @ ascii '' **AI Description:** A red car drives past'' @ [10]
                    @ ascii ''   '' @ [0x1F4F9] @ ascii '' **Video URL:** https://cdn.example/c.mp4'' @ [10]
                    @ ascii ''   '' @ [0x23F0] @ ascii '' **URL Expires:** tomorrow'' @ [10]
                    @ ascii ''   '' @ [0x1F3AC] @ ascii '' **Video ID:** first-vi...'' @ [10]
                    @ ascii ''   '' @ [0x1F4DD] @ ascii '' **Chunk ID:** first-ch...''
                    @ [10, 10])
                  [ascii ''1'', ascii ''2'', ascii ''3'', ascii ''4'', ascii ''5'', ascii ''6'',
                   ascii ''7'', ascii ''8'', ascii ''9'', ascii ''10'', ascii ''11'', ascii ''12'',
                   ascii ''13'', ascii ''14'', ascii ''15''])
              @ [0x1F4A1] @ ascii '' **Usage Tips:**''
              @ [10, 0x2022] @ ascii '' Read the AI-generated descriptions to understand video content before clicking''
              @ [10, 0x2022] @ ascii '' Click video URLs to view the actual clips''
              @ [10, 0x2022] @ ascii '' URLs expire after the specified time - use them promptly''
              @ [10, 0x2022] @ ascii '' Each video segment represents approximately 30 seconds of content''
              @ [10, 0x2022] @ ascii '' Descriptions include both visual content analysis and audio transcription'')"
proof -
  let ?c = "demo_clip (ascii ''first-video-id'') (ascii ''first-chunk-id'') (ascii ''tomorrow'')"
  let ?cs = "replicate 16 ?c"
  let ?d = "[(ascii ''clips'', JList ?cs)]"
  let ?out = "snd (query_videos demo_runtime (answers (Inr (ok_response (JDict ?d))))
             (demo_context (ascii ''u1'')) (ascii ''red car'') 10)"
  let ?body = "ascii ''. **Relevance Score: 0.842**'' @ [10]
                    @ ascii ''   '' @ [0x1F4C4] @ ascii '' **AI Description:** A red car drives past'' @ [10]
                    @ ascii ''   '' @ [0x1F4F9] @ ascii '' **Video URL:** https://cdn.example/c.mp4'' @ [10]
                    @ ascii ''   '' @ [0x23F0] @ ascii '' **URL Expires:** tomorrow'' @ [10]
                    @ ascii ''   '' @ [0x1F3AC] @ ascii '' **Video ID:** first-vi...'' @ [10]
                    @ ascii ''   '' @ [0x1F4DD] @ ascii '' **Chunk ID:** first-ch...''"
  have s16: "str_int 16 = ascii ''16''" by code_simp
  have s: "str_int (int (length ?cs)) = ascii ''16''" by (simp add: s16)
  have h5: "map_of ?d (ascii ''clips'') = Some (JList ?cs)" by simp
  have h6: "?cs \<noteq> []" by simp
  have h7: "\<forall>c\<in>set (take 15 ?cs). ClipResult c" by simp
  note th = header_counts_all_clips [of "demo_context (ascii ''u1'')" "answers (Inr (ok_response (JDict ?d)))"
      "ascii ''red car''" 10 "ok_response (JDict ?d)" ?d ?cs demo_runtime,
      OF demo_user demo_post demo_ok(1) demo_ok(2) h5 h6 h7]
  have A: "15 < length ?cs" by simp
  have B: "prefix ([0x1F3AF] @ ascii '' **Found 16 relevant video clips for query:** '' @ [39] @ ascii ''red car'' @ [39])
        (projr ?out)"
    using th [THEN conjunct1] by (simp add: s16 ascii_def)
  from th [THEN conjunct2]
  obtain blocks where len: "length blocks = min (length ?cs) 15"
    and each: "\<forall>k<length blocks. \<exists>chunk video description url expires x.
               clip_fields (?cs ! k) chunk video description url expires x
               \<and> blocks ! k =
                   ranks ! k @ ascii ''. **Relevance Score: '' @ float_3f demo_runtime x @ ascii ''**'' @ [10]
                   @ ascii ''   '' @ [0x1F4C4] @ ascii '' **AI Description:** '' @ description @ [10]
                   @ ascii ''   '' @ [0x1F4F9] @ ascii '' **Video URL:** '' @ url @ [10]
                   @ ascii ''   '' @ [0x23F0] @ ascii '' **URL Expires:** ''
                       @ (if 84 \<in> set expires then take 19 expires else expires) @ [10]
                   @ ascii ''   '' @ [0x1F3AC] @ ascii '' **Video ID:** '' @ take 8 video @ ascii ''...'' @ [10]
                   @ ascii ''   '' @ [0x1F4DD] @ ascii '' **Chunk ID:** '' @ take 8 chunk @ ascii ''...''"
    and out: "?out
             = Inr ([0x1F3AF] @ ascii '' **Found '' @ str_int (int (length ?cs))
                    @ ascii '' relevant video clips for query:** '' @ [39] @ ascii ''red car'' @ [39] @ [10, 10]
                    @ [0x1F4CA] @ ascii '' **Results sorted by relevance score (higher = more relevant)**''
                    @ [10, 10]
                    @ concat (map (\<lambda>b. b @ [10, 10]) blocks)
                    @ [0x1F4A1] @ ascii '' **Usage Tips:**''
                    @ [10, 0x2022] @ ascii '' Read the AI-generated descriptions to understand video content before clicking''
                    @ [10, 0x2022] @ ascii '' Click video URLs to view the actual clips''
                    @ [10, 0x2022] @ ascii '' URLs expire after the specified time - use them promptly''
                    @ [10, 0x2022] @ ascii '' Each video segment represents approximately 30 seconds of content''
                    @ [10, 0x2022] @ ascii '' Descriptions include both visual content analysis and audio transcription'')"
    by blast
  from len have l15: "length blocks = 15" by simp
  have lr: "length ranks = 15" by (simp add: ranks_def)
  have bk: "blocks ! k = ranks ! k @ ?body" if k: "k < 15" for k
  proof -
    from k have "?cs ! k = ?c" by simp
    with each [rule_format, of k] k l15 show ?thesis
      by (clarsimp simp: clip_fields_demo_clip demo_score ascii_def)
  qed
  have bl: "blocks = map (\<lambda>rank. rank @ ?body) ranks"
    by (rule nth_equalityI) (simp_all add: l15 lr bk)
  have cc: "concat (map (\<lambda>b. b @ [10, 10]) blocks)
      = concat (map (\<lambda>rank. rank @ ?body @ [10, 10]) ranks)"
    unfolding bl by (simp add: comp_def)
  have C: "?out
       = Inr ([0x1F3AF] @ ascii '' **Found 16 relevant video clips for query:** '' @ [39] @ ascii ''red car'' @ [39]
              @ [10, 10]
              @ [0x1F4CA] @ ascii '' **Results sorted by relevance score (higher = more relevant)**''
              @ [10, 10]
              @ concat (map (\<lambda>rank. rank @ ?body @ [10, 10]) ranks)
              @ [0x1F4A1] @ ascii '' **Usage Tips:**''
              @ [10, 0x2022] @ ascii '' Read the AI-generated descriptions to understand video content before clicking''
              @ [10, 0x2022] @ ascii '' Click video URLs to view the actual clips''
              @ [10, 0x2022] @ ascii '' URLs expire after the specified time - use them promptly''
              @ [10, 0x2022] @ ascii '' Each video segment represents approximately 30 seconds of content''
              @ [10, 0x2022] @ ascii '' Descriptions include both visual content analysis and audio transcription'')"
    using out unfolding s cc by (simp add: ascii_def)
  show ?thesis
    using A B C [unfolded ranks_def] by (simp only: append_assoc simp_thms)
qed

end
